theory Spec2Isabelle
  imports Main "HOL-Library.Word" "HOL-Library.Monad_Syntax"
begin

unbundle bit_operations_syntax

section \<open>The MCS-96 (196EA) instruction decoder of \<^verbatim>\<open>disasm/196ea_opc.go\<close>\<close>

text \<open>
  The development embeds the decoder of \<^verbatim>\<open>disasm/196ea_opc.go\<close>: the entry point
  \<^verbatim>\<open>Parse\<close>, the offset calculator \<^verbatim>\<open>getOffset\<close>, the recorders \<^verbatim>\<open>XRef\<close>,
  \<^verbatim>\<open>Call\<close> and \<^verbatim>\<open>Jump\<close>, every operand resolver (\<^verbatim>\<open>doSJMP\<close> ... \<^verbatim>\<open>doMIDDLE\<close>),
  the pseudocode synthesizer \<^verbatim>\<open>doPseudo\<close> and both opcode tables.

  Conventions.
  \<^item> A Go \<^verbatim>\<open>byte\<close> is an \<open>8 word\<close>. A Go \<^verbatim>\<open>int\<close> is a HOL \<open>int\<close>; the only
    additions whose operands are not bounded by a few bytes (address plus length plus
    displacement) wrap around at 64 bits, written out in \<open>add64\<close>.
  \<^item> A run-time panic of the Go code (index out of range, slice bounds out of range) is
    the value \<open>None\<close>; the functions that can panic return an \<open>option\<close>.
  \<^item> A method with a pointer receiver takes the instruction and returns the updated one.
  \<^item> A Go map is a partial function; a nil map is \<open>None\<close> wherever the code tests for nil.
  \<^item> A \<^verbatim>\<open>for ... range\<close> loop is a recursive function over the ranged slice.
  \<^item> The fields \<^verbatim>\<open>LongDescription\<close>, \<^verbatim>\<open>PseudoString\<close> and \<^verbatim>\<open>Flags\<close> of an
    instruction and \<^verbatim>\<open>Description\<close> of a variable are documentation text (or an empty
    struct) that no function reads or writes; they are left out of the records.
\<close>

subsection \<open>Go primitives\<close>

type_synonym byte = "8 word"

text \<open>The index expression \<^verbatim>\<open>xs[i]\<close>: it panics outside \<^verbatim>\<open>0 <= i < len(xs)\<close>.\<close>

definition index :: "'a list \<Rightarrow> int \<Rightarrow> 'a option" where
  "index xs i = (if 0 \<le> i \<and> i < int (length xs) then Some (xs ! nat i) else None)"

text \<open>
  The slice expression \<^verbatim>\<open>in[lo:hi]\<close> on a byte slice. A Go slice has a length and a
  capacity: \<open>inp\<close> holds the \<^verbatim>\<open>len(in)\<close> visible bytes, \<open>spare\<close> the bytes of the
  backing array between the length and the capacity. The expression panics unless
  \<^verbatim>\<open>0 <= lo <= hi <= cap(in)\<close>, so it can reach into the spare bytes. Only the visible
  bytes of the result are kept: the code never slices a slice of a slice.
\<close>

definition slice :: "byte list \<Rightarrow> byte list \<Rightarrow> int \<Rightarrow> int \<Rightarrow> byte list option" where
  "slice inp spare lo hi =
     (if 0 \<le> lo \<and> lo \<le> hi \<and> hi \<le> int (length inp + length spare)
      then Some (take (nat (hi - lo)) (drop (nat lo) (inp @ spare)))
      else None)"

text \<open>Addition of two Go \<^verbatim>\<open>int\<close>s on a 64-bit platform: two's complement wrap-around.\<close>

definition add64 :: "int \<Rightarrow> int \<Rightarrow> int" where
  "add64 a b = (a + b + 2 ^ 63) mod 2 ^ 64 - 2 ^ 63"

subsection \<open>The fragment of \<^verbatim>\<open>fmt.Sprintf\<close> and \<^verbatim>\<open>strings.Replace\<close> the decoder uses\<close>

definition digitChar :: "int \<Rightarrow> char" where
  "digitChar d = ''0123456789ABCDEF'' ! nat d"

text \<open>
  The digits of \<open>n\<close> in base \<open>base\<close>, most significant first, without leading
  zeros (a single \<open>0\<close> for zero). A Go \<^verbatim>\<open>int\<close> has 64 bits, hence at most 20
  decimal and 16 hexadecimal digits: the places 19 down to 0 are enough.
\<close>

fun stripZeros :: "string \<Rightarrow> string" where
  "stripZeros [] = []"
| "stripZeros [c] = [c]"
| "stripZeros (c # d # cs) = (if c = CHR ''0'' then stripZeros (d # cs) else c # d # cs)"

definition digits :: "int \<Rightarrow> int \<Rightarrow> string" where
  "digits base n =
     stripZeros (map (\<lambda>k. digitChar ((n div base ^ k) mod base))
       [19, 18, 17, 16, 15, 14, 13, 12, 11, 10, 9, 8, 7, 6, 5, 4, 3, 2, 1, 0])"

text \<open>
  An integer under the verb \<^verbatim>\<open>%X\<close> (base 16) or \<^verbatim>\<open>%d\<close> (base 10), with the flag
  \<^verbatim>\<open>0\<close> and a width: the sign comes first and counts in the width; the padding is
  zeros after the sign with the flag, spaces before it without.
\<close>

definition fmtInteger :: "int \<Rightarrow> bool \<Rightarrow> nat \<Rightarrow> int \<Rightarrow> string" where
  "fmtInteger base zero width v =
     (let ds = digits base \<bar>v\<bar>;
          sgn = (if v < 0 then ''-'' else '''')
      in if zero then sgn @ replicate (width - length sgn - length ds) (CHR ''0'') @ ds
         else replicate (width - length sgn - length ds) (CHR '' '') @ sgn @ ds)"

definition isDigit :: "char \<Rightarrow> bool" where
  "isDigit c = (c \<in> set ''0123456789'')"

definition digitVal :: "char \<Rightarrow> nat" where
  "digitVal c = of_char c - of_char (CHR ''0'')"

fun joinExtra :: "int list \<Rightarrow> string" where
  "joinExtra [] = ''''"
| "joinExtra [v] = ''int='' @ fmtInteger 10 False 0 v"
| "joinExtra (v # vs) = ''int='' @ fmtInteger 10 False 0 v @ '', '' @ joinExtra vs"

definition extraArgs :: "int list \<Rightarrow> string" where
  "extraArgs args = (if args = [] then '''' else ''%!(EXTRA '' @ joinExtra args @ '')'')"

text \<open>
  The scanner state of \<^verbatim>\<open>Sprintf\<close>: in literal text, or inside a conversion
  specification after \<^verbatim>\<open>%\<close>, having read the zero flag and the width so far.
\<close>

datatype fmtState = Literal | Spec bool "nat option"

text \<open>
  \<^verbatim>\<open>fmt.Sprintf\<close> with integer operands. The conversion specifications are
  \<^verbatim>\<open>%[0][width]verb\<close> with the verbs \<^verbatim>\<open>X\<close>, \<^verbatim>\<open>d\<close> and \<^verbatim>\<open>%\<close>, which covers every
  format of the source (\<^verbatim>\<open>%X\<close>, \<^verbatim>\<open>%02X\<close>, \<^verbatim>\<open>%04X\<close>, \<^verbatim>\<open>%06X\<close>, \<^verbatim>\<open>%d\<close>). A verb
  without operand, a missing verb, operands left over and any other verb are rendered
  as Go renders a malformed call.
\<close>

fun sprintfScan :: "fmtState \<Rightarrow> string \<Rightarrow> int list \<Rightarrow> string" where
  "sprintfScan Literal [] args = extraArgs args"
| "sprintfScan Literal (c # cs) args =
     (if c = CHR ''%'' then sprintfScan (Spec False None) cs args
      else c # sprintfScan Literal cs args)"
| "sprintfScan (Spec zero width) [] args = ''%!(NOVERB)'' @ extraArgs args"
| "sprintfScan (Spec zero width) (c # cs) args =
     (if c = CHR ''0'' \<and> width = None then sprintfScan (Spec True None) cs args
      else if isDigit c
        then sprintfScan (Spec zero (Some (10 * (case width of None \<Rightarrow> 0 | Some w \<Rightarrow> w) + digitVal c))) cs args
      else if c = CHR ''%'' then CHR ''%'' # sprintfScan Literal cs args
      else (case args of
              [] \<Rightarrow> ''%!'' @ [c] @ ''(MISSING)'' @ sprintfScan Literal cs args
            | v # rest \<Rightarrow>
                (if c = CHR ''X'' then fmtInteger 16 zero (case width of None \<Rightarrow> 0 | Some w \<Rightarrow> w) v
                 else if c = CHR ''d'' then fmtInteger 10 zero (case width of None \<Rightarrow> 0 | Some w \<Rightarrow> w) v
                 else ''%!'' @ [c] @ ''(int='' @ fmtInteger 10 False 0 v @ '')'')
                @ sprintfScan Literal cs rest))"

definition Sprintf :: "string \<Rightarrow> int list \<Rightarrow> string" where
  "Sprintf format args = sprintfScan Literal format args"

text \<open>\<^verbatim>\<open>strings.Replace(s, old, new, 1)\<close>: the first occurrence of \<open>old\<close> is replaced.\<close>

fun replaceFirst :: "string \<Rightarrow> string \<Rightarrow> string \<Rightarrow> string" where
  "replaceFirst [] old new = (if old = [] then new else [])"
| "replaceFirst (c # cs) old new =
     (if take (length old) (c # cs) = old then new @ drop (length old) (c # cs)
      else c # replaceFirst cs old new)"

subsection \<open>The data model\<close>

text \<open>A resolved operand. \<^verbatim>\<open>Type\<close> and \<^verbatim>\<open>Value\<close> are set per instruction.\<close>

record Variable =
  Type :: string
  Value :: string
  Bits :: int

text \<open>The three kinds of control-flow edge; the fields of each are prefixed by its kind.\<close>

record XRef =
  XString :: string
  XMnemonic :: string
  XRefFrom :: int
  XRefTo :: int

record Call =
  CString :: string
  CMnemonic :: string
  CallFrom :: int
  CallTo :: int

record Jump =
  JString :: string
  JMnemonic :: string
  JumpFrom :: int
  JumpTo :: int

record Instruction =
  Op :: byte
  Address :: int
  XRefs :: "(int \<rightharpoonup> XRef list) option"
  Calls :: "(int \<rightharpoonup> Call list) option"
  Jumps :: "(int \<rightharpoonup> Jump list) option"
  Raw :: "byte list"
  RawOps :: "byte list"
  Mnemonic :: string
  ByteLength :: int
  VarCount :: int
  VarStrings :: "string list"
  Vars :: "string \<rightharpoonup> Variable"
  PseudoCode :: string
  VarTypes :: "string list"
  AddressingMode :: string
  Description :: string
  VariableLength :: bool
  AutoIncrement :: bool
  Signed :: bool
  Ignore :: bool
  Reserved :: bool
  Checked :: bool

text \<open>The zero value of the struct, \<^verbatim>\<open>Instruction{}\<close>.\<close>

definition zeroInstruction :: Instruction where
  "zeroInstruction =
     \<lparr>Op = 0, Address = 0, XRefs = None, Calls = None, Jumps = None, Raw = [], RawOps = [],
      Mnemonic = [], ByteLength = 0, VarCount = 0, VarStrings = [], Vars = Map.empty,
      PseudoCode = [], VarTypes = [], AddressingMode = [], Description = [],
      VariableLength = False, AutoIncrement = False, Signed = False, Ignore = False,
      Reserved = False, Checked = False\<rparr>"

definition zeroVariable :: Variable where
  "zeroVariable = \<lparr>Type = [], Value = [], Bits = 0\<rparr>"

text \<open>
  The catalogue \<^verbatim>\<open>VarObjs\<close>: the bit width of each operand name (the entries whose
  \<^verbatim>\<open>Bits\<close> line is commented out have width 0).
\<close>

definition VarObjs :: "string \<rightharpoonup> Variable" where
  "VarObjs = map_of
     [(''aa'', zeroVariable\<lparr>Bits := 2\<rparr>),
      (''baop'', zeroVariable\<lparr>Bits := 8\<rparr>),
      (''bbb'', zeroVariable\<lparr>Bits := 3\<rparr>),
      (''bitno'', zeroVariable\<lparr>Bits := 3\<rparr>),
      (''breg'', zeroVariable\<lparr>Bits := 8\<rparr>),
      (''cadd'', zeroVariable),
      (''Dbreg'', zeroVariable\<lparr>Bits := 8\<rparr>),
      (''disp'', zeroVariable),
      (''Dlreg'', zeroVariable\<lparr>Bits := 8\<rparr>),
      (''Dwreg'', zeroVariable\<lparr>Bits := 8\<rparr>),
      (''lreg'', zeroVariable\<lparr>Bits := 8\<rparr>),
      (''ptr2_reg'', zeroVariable\<lparr>Bits := 8\<rparr>),
      (''preg'', zeroVariable\<lparr>Bits := 8\<rparr>),
      (''Sbreg'', zeroVariable\<lparr>Bits := 8\<rparr>),
      (''Slreg'', zeroVariable\<lparr>Bits := 8\<rparr>),
      (''Swreg'', zeroVariable\<lparr>Bits := 8\<rparr>),
      (''treg'', zeroVariable\<lparr>Bits := 8\<rparr>),
      (''waop'', zeroVariable\<lparr>Bits := 16\<rparr>),
      (''w2_reg'', zeroVariable),
      (''wreg'', zeroVariable),
      (''xxx'', zeroVariable\<lparr>Bits := 3\<rparr>)]"

text \<open>Reading a Go map at a key it does not hold gives the zero value.\<close>

definition VarObj :: "string \<Rightarrow> Variable" where
  "VarObj name = (case VarObjs name of None \<Rightarrow> zeroVariable | Some v \<Rightarrow> v)"

definition getVar :: "(string \<rightharpoonup> Variable) \<Rightarrow> string \<Rightarrow> Variable" where
  "getVar vars name = (case vars name of None \<Rightarrow> zeroVariable | Some v \<Rightarrow> v)"

definition edgesAt :: "(int \<rightharpoonup> 'e list) \<Rightarrow> int \<Rightarrow> 'e list" where
  "edgesAt m v = (case m v of None \<Rightarrow> [] | Some es \<Rightarrow> es)"

subsection \<open>The control-flow recorder\<close>

text \<open>
  \<^verbatim>\<open>XRef\<close>: nothing is recorded for a target of at most 2. On a nil map the map is made
  and the edge stored. Otherwise the edges under the target are searched for one from
  this instruction's address, and the method returns early when there is one.
\<close>

definition XRef :: "string \<Rightarrow> int \<Rightarrow> Instruction \<Rightarrow> Instruction" where
  "XRef s v instr =
     (if v > 2 then
        (let edge = \<lparr>XString = Sprintf s [v], XMnemonic = Mnemonic instr,
                     XRefFrom = Address instr, XRefTo = v\<rparr>
         in case XRefs instr of
              None \<Rightarrow> instr\<lparr>XRefs := Some (Map.empty(v \<mapsto> [edge]))\<rparr>
            | Some existing \<Rightarrow>
                if list_ex (\<lambda>ins. XRefFrom ins = Address instr) (edgesAt existing v) then instr
                else instr\<lparr>XRefs := Some (existing(v \<mapsto> edgesAt existing v @ [edge]))\<rparr>)
      else instr)"

text \<open>\<^verbatim>\<open>Call\<close> and \<^verbatim>\<open>Jump\<close>: the map is made when nil, and the edge is appended.\<close>

definition Call :: "string \<Rightarrow> int \<Rightarrow> Instruction \<Rightarrow> Instruction" where
  "Call s v instr =
     (let edge = \<lparr>CString = Sprintf s [v], CMnemonic = Mnemonic instr,
                  CallFrom = Address instr, CallTo = v\<rparr>;
          existing = (case Calls instr of None \<Rightarrow> Map.empty | Some m \<Rightarrow> m)
      in instr\<lparr>Calls := Some (existing(v \<mapsto> edgesAt existing v @ [edge]))\<rparr>)"

definition Jump :: "string \<Rightarrow> int \<Rightarrow> Instruction \<Rightarrow> Instruction" where
  "Jump s v instr =
     (let edge = \<lparr>JString = Sprintf s [v], JMnemonic = Mnemonic instr,
                  JumpFrom = Address instr, JumpTo = v\<rparr>;
          existing = (case Jumps instr of None \<Rightarrow> Map.empty | Some m \<Rightarrow> m)
      in instr\<lparr>Jumps := Some (existing(v \<mapsto> edgesAt existing v @ [edge]))\<rparr>)"

subsection \<open>The offset calculator\<close>

text \<open>
  \<^verbatim>\<open>getOffset\<close>: \<^verbatim>\<open>int16(b1)\<close> of a byte is its zero extension, the shift is taken in
  16 bits, and \<^verbatim>\<open>int(...)\<close> of the \<^verbatim>\<open>int16\<close> reads it as two's complement.
\<close>

definition getOffset :: "byte list \<Rightarrow> int option" where
  "getOffset data = do {
     b1 \<leftarrow> index data 0;
     b2 \<leftarrow> index data 1;
     let b1 = b1 AND 0x07;
     let b1 = (if b1 AND 0x04 = 0x04 then b1 OR 0xFC else b1);
     Some (sint (push_bit 8 (ucast b1 :: 16 word) OR (ucast b2 :: 16 word)))
   }"

subsection \<open>The operand resolvers of the branch opcodes\<close>

text \<open>
  \<^verbatim>\<open>regName\<close> is declared in another file of the package: the resolvers take it as the
  parameter \<open>regName\<close>. It receives a format and a value and returns the format that
  \<^verbatim>\<open>fmt.Sprintf\<close> is then given.

  Modelled from the spec: \<open>plainRegName\<close> is the register-name service degenerated to
  plain numeric formatting, which returns the template it is given; the concrete
  evaluations below use it.
\<close>

type_synonym regNameFn = "string \<Rightarrow> int \<Rightarrow> string"

definition plainRegName :: regNameFn where
  "plainRegName s v = s"

text \<open>The target of a relative branch: \<^verbatim>\<open>instr.Address + instr.ByteLength + offset\<close>.\<close>

definition target :: "Instruction \<Rightarrow> int \<Rightarrow> int" where
  "target instr offset = add64 (add64 (Address instr) (ByteLength instr)) offset"

definition doSJMP :: "Instruction \<Rightarrow> Instruction option" where
  "doSJMP instr = do {
     r0 \<leftarrow> index (RawOps instr) 0;
     offset \<leftarrow> getOffset [Op instr, r0];
     let str = ''0x%X'';
     let val = target instr offset;
     let instr = Jump str val instr;
     let cadd = VarObj ''cadd'';
     let cadd = cadd\<lparr>Value := Sprintf ''0x%X'' [val]\<rparr>;
     t0 \<leftarrow> index (VarTypes instr) 0;
     let cadd = cadd\<lparr>Type := t0\<rparr>;
     let vars = Map.empty(''cadd'' \<mapsto> cadd);
     Some (instr\<lparr>Vars := vars, Checked := True\<rparr>)
   }"

definition doSCALL :: "Instruction \<Rightarrow> Instruction option" where
  "doSCALL instr = do {
     r0 \<leftarrow> index (RawOps instr) 0;
     offset \<leftarrow> getOffset [Op instr, r0];
     let cadd = VarObj ''cadd'';
     let str = ''0x%X'';
     let val = target instr offset;
     let instr = Call str val instr;
     let cadd = cadd\<lparr>Value := Sprintf str [val]\<rparr>;
     t0 \<leftarrow> index (VarTypes instr) 0;
     let cadd = cadd\<lparr>Type := t0\<rparr>;
     let vars = Map.empty(''cadd'' \<mapsto> cadd);
     Some (instr\<lparr>Vars := vars, Checked := True\<rparr>)
   }"

text \<open>
  \<^verbatim>\<open>doJBC\<close> and \<^verbatim>\<open>doJBS\<close> have the same body. The displacement is
  \<^verbatim>\<open>int(instr.RawOps[1])\<close>: the conversion of a \<^verbatim>\<open>byte\<close> to \<^verbatim>\<open>int\<close> is its unsigned
  value.
\<close>

definition doJBC :: "regNameFn \<Rightarrow> Instruction \<Rightarrow> Instruction option" where
  "doJBC regName instr = do {
     r1 \<leftarrow> index (RawOps instr) 1;
     let offset = uint r1;
     let breg = VarObj ''breg'';
     r0 \<leftarrow> index (RawOps instr) 0;
     let val = uint r0;
     let str = regName ''R_%X'' val;
     let instr = XRef str val instr;
     let breg = breg\<lparr>Value := Sprintf str [val]\<rparr>;
     t0 \<leftarrow> index (VarTypes instr) 0;
     let breg = breg\<lparr>Type := t0\<rparr>;
     let vars = Map.empty(''breg'' \<mapsto> breg);
     let bitno = VarObj ''bitno'';
     let bitno = bitno\<lparr>Value := Sprintf ''%d'' [uint (Op instr AND 0x07)]\<rparr>;
     t1 \<leftarrow> index (VarTypes instr) 1;
     let bitno = bitno\<lparr>Type := t1\<rparr>;
     let vars = vars(''bitno'' \<mapsto> bitno);
     let cadd = VarObj ''cadd'';
     let val = target instr offset;
     let str = regName ''0x%X'' val;
     let instr = Jump str val instr;
     let cadd = cadd\<lparr>Value := Sprintf str [val]\<rparr>;
     t2 \<leftarrow> index (VarTypes instr) 2;
     let cadd = cadd\<lparr>Type := t2\<rparr>;
     let vars = vars(''cadd'' \<mapsto> cadd);
     Some (instr\<lparr>Vars := vars, Checked := True\<rparr>)
   }"

definition doJBS :: "regNameFn \<Rightarrow> Instruction \<Rightarrow> Instruction option" where
  "doJBS regName instr = do {
     r1 \<leftarrow> index (RawOps instr) 1;
     let offset = uint r1;
     let breg = VarObj ''breg'';
     r0 \<leftarrow> index (RawOps instr) 0;
     let val = uint r0;
     let str = regName ''R_%X'' val;
     let instr = XRef str val instr;
     let breg = breg\<lparr>Value := Sprintf str [val]\<rparr>;
     t0 \<leftarrow> index (VarTypes instr) 0;
     let breg = breg\<lparr>Type := t0\<rparr>;
     let vars = Map.empty(''breg'' \<mapsto> breg);
     let bitno = VarObj ''bitno'';
     let bitno = bitno\<lparr>Value := Sprintf ''%d'' [uint (Op instr AND 0x07)]\<rparr>;
     t1 \<leftarrow> index (VarTypes instr) 1;
     let bitno = bitno\<lparr>Type := t1\<rparr>;
     let vars = vars(''bitno'' \<mapsto> bitno);
     let cadd = VarObj ''cadd'';
     let val = target instr offset;
     let str = regName ''0x%X'' val;
     let instr = Jump str val instr;
     let cadd = cadd\<lparr>Value := Sprintf str [val]\<rparr>;
     t2 \<leftarrow> index (VarTypes instr) 2;
     let cadd = cadd\<lparr>Type := t2\<rparr>;
     let vars = vars(''cadd'' \<mapsto> cadd);
     Some (instr\<lparr>Vars := vars, Checked := True\<rparr>)
   }"

definition doCONDJMP :: "Instruction \<Rightarrow> Instruction option" where
  "doCONDJMP instr = do {
     r0 \<leftarrow> index (RawOps instr) 0;
     let offset = uint r0;
     let str = ''0x%X'';
     let val = target instr offset;
     let instr = Jump str val instr;
     let cadd = VarObj ''cadd'';
     let cadd = cadd\<lparr>Value := Sprintf str [val]\<rparr>;
     t0 \<leftarrow> index (VarTypes instr) 0;
     let cadd = cadd\<lparr>Type := t0\<rparr>;
     let vars = Map.empty(''cadd'' \<mapsto> cadd);
     Some (instr\<lparr>Vars := vars, Checked := True\<rparr>)
   }"

text \<open>\<^verbatim>\<open>int(b3)<<16 | int(b2)<<8 | int(b1)\<close> on Go \<^verbatim>\<open>int\<close>s.\<close>

definition le24 :: "byte \<Rightarrow> byte \<Rightarrow> byte \<Rightarrow> int" where
  "le24 b1 b2 b3 = push_bit 16 (uint b3) OR push_bit 8 (uint b2) OR uint b1"

definition le16 :: "byte \<Rightarrow> byte \<Rightarrow> int" where
  "le16 b1 b2 = push_bit 8 (uint b2) OR uint b1"

definition doF0 :: "Instruction \<Rightarrow> Instruction option" where
  "doF0 instr = do {
     b1 \<leftarrow> index (RawOps instr) 0;
     b2 \<leftarrow> index (RawOps instr) 1;
     b3 \<leftarrow> index (RawOps instr) 2;
     let offset = le24 b1 b2 b3;
     let val = target instr offset;
     let val = val AND 0x1FFFFF;
     let str = ''0x%X'';
     let instr = (if Mnemonic instr = ''ECALL'' then Call str val instr else XRef str val instr);
     let cadd = VarObj ''cadd'';
     let cadd = cadd\<lparr>Value := Sprintf str [val]\<rparr>;
     t0 \<leftarrow> index (VarTypes instr) 0;
     let cadd = cadd\<lparr>Type := t0\<rparr>;
     let vars = Map.empty(''cadd'' \<mapsto> cadd);
     Some (instr\<lparr>Vars := vars, Checked := True\<rparr>)
   }"

subsection \<open>The resolver of the \<open>0xE0\<close> opcodes\<close>

text \<open>
  The cases \<^verbatim>\<open>"extended-indexed"\<close> and \<^verbatim>\<open>"extended-indirect"\<close> are written twice in
  the source, in \<^verbatim>\<open>doE0\<close> and in \<^verbatim>\<open>do00\<close>, with the same statements; both end with
  \<^verbatim>\<open>instr.Vars = vars\<close> and \<^verbatim>\<open>instr.Checked = true\<close>.
\<close>

definition extendedIndexed :: "regNameFn \<Rightarrow> Instruction \<Rightarrow> Instruction option" where
  "extendedIndexed regName instr = do {
     b1 \<leftarrow> index (RawOps instr) 1;
     b2 \<leftarrow> index (RawOps instr) 2;
     b3 \<leftarrow> index (RawOps instr) 3;
     let offset = le24 b1 b2 b3;
     let offStr = regName ''0x%06X'' offset;
     let instr = XRef offStr offset instr;
     r0 \<leftarrow> index (RawOps instr) 0;
     let val = uint r0;
     let str = regName ''[R_%02X'' val;
     let instr = XRef str val instr;
     let treg = VarObj ''treg'';
     let treg = treg\<lparr>Value := Sprintf (offStr @ str @ '']'') [offset, val]\<rparr>;
     t1 \<leftarrow> index (VarTypes instr) 1;
     let treg = treg\<lparr>Type := t1\<rparr>;
     name \<leftarrow> index (VarStrings instr) 0;
     let reg = VarObj name;
     r4 \<leftarrow> index (RawOps instr) 4;
     let val = uint r4;
     let str = regName ''R_%02X'' val;
     let instr = XRef str val instr;
     let reg = reg\<lparr>Value := Sprintf str [val]\<rparr>;
     t0 \<leftarrow> index (VarTypes instr) 0;
     let reg = reg\<lparr>Type := t0\<rparr>;
     let vars = Map.empty(''treg'' \<mapsto> treg);
     let vars = vars(name \<mapsto> reg);
     Some (instr\<lparr>Vars := vars, Checked := True\<rparr>)
   }"

definition extendedIndirect :: "regNameFn \<Rightarrow> Instruction \<Rightarrow> Instruction option" where
  "extendedIndirect regName instr = do {
     r0 \<leftarrow> index (RawOps instr) 0;
     let val = uint r0;
     let str = regName ''[R_%02X'' val;
     let instr = XRef str val instr;
     let treg = VarObj ''treg'';
     let treg = treg\<lparr>Value := Sprintf (str @ '']'') [val]\<rparr>;
     t1 \<leftarrow> index (VarTypes instr) 1;
     let treg = treg\<lparr>Type := t1\<rparr>;
     r1 \<leftarrow> index (RawOps instr) 1;
     let val = uint r1;
     let str = regName ''R_%02X'' val;
     let instr = XRef str val instr;
     name \<leftarrow> index (VarStrings instr) 0;
     let reg = VarObj name;
     let reg = reg\<lparr>Value := Sprintf str [val]\<rparr>;
     t0 \<leftarrow> index (VarTypes instr) 0;
     let reg = reg\<lparr>Type := t0\<rparr>;
     let vars = Map.empty(''treg'' \<mapsto> treg);
     let vars = vars(name \<mapsto> reg);
     Some (instr\<lparr>Vars := vars, Checked := True\<rparr>)
   }"

text \<open>\<^verbatim>\<open>case 0xE0, 0xE1\<close> of \<^verbatim>\<open>doE0\<close>: \<^verbatim>\<open>DJNZ\<close> and \<^verbatim>\<open>DJNZW\<close>.\<close>

definition doDJNZ :: "regNameFn \<Rightarrow> Instruction \<Rightarrow> Instruction option" where
  "doDJNZ regName instr = do {
     r1 \<leftarrow> index (RawOps instr) 1;
     let offset = uint r1;
     let breg = VarObj ''breg'';
     r0 \<leftarrow> index (RawOps instr) 0;
     let val = uint r0;
     let str = regName ''R_%X'' val;
     let instr = XRef str val instr;
     let breg = breg\<lparr>Value := Sprintf str [val]\<rparr>;
     t0 \<leftarrow> index (VarTypes instr) 0;
     let breg = breg\<lparr>Type := t0\<rparr>;
     let vars = Map.empty(''breg'' \<mapsto> breg);
     let val = target instr offset;
     let str = ''0x%X'';
     let instr = Jump str val instr;
     let cadd = VarObj ''cadd'';
     let cadd = cadd\<lparr>Value := Sprintf str [val]\<rparr>;
     t1 \<leftarrow> index (VarTypes instr) 1;
     let cadd = cadd\<lparr>Type := t1\<rparr>;
     let vars = vars(''cadd'' \<mapsto> cadd);
     Some (instr\<lparr>Checked := True, Vars := vars\<rparr>)
   }"

text \<open>\<^verbatim>\<open>case 0xE6\<close>: \<^verbatim>\<open>EJMP\<close>.\<close>

definition doEJMP :: "regNameFn \<Rightarrow> Instruction \<Rightarrow> Instruction option" where
  "doEJMP regName instr = do {
     b1 \<leftarrow> index (RawOps instr) 0;
     b2 \<leftarrow> index (RawOps instr) 1;
     b3 \<leftarrow> index (RawOps instr) 2;
     let offset = le24 b1 b2 b3;
     let val = target instr offset;
     let val = val AND 0x1FFFFF;
     let str = ''0x%X'';
     let str = regName str val;
     let instr = Jump str val instr;
     let cadd = VarObj ''cadd'';
     let cadd = cadd\<lparr>Value := Sprintf str [val]\<rparr>;
     t0 \<leftarrow> index (VarTypes instr) 0;
     let cadd = cadd\<lparr>Type := t0\<rparr>;
     let vars = Map.empty(''cadd'' \<mapsto> cadd);
     Some (instr\<lparr>Checked := True, Vars := vars\<rparr>)
   }"

text \<open>
  \<^verbatim>\<open>case 0xE3\<close>: \<^verbatim>\<open>BR\<close> and \<^verbatim>\<open>EBR\<close>. With bit 0 of the operand byte clear the
  instruction is rewritten in place to the indirect \<^verbatim>\<open>BR\<close>.
\<close>

definition doBR :: "regNameFn \<Rightarrow> Instruction \<Rightarrow> Instruction option" where
  "doBR regName instr = do {
     r0 \<leftarrow> index (RawOps instr) 0;
     let val = uint r0;
     let (instr, val) =
       (if r0 AND 0x01 = 0x00
        then (instr\<lparr>Description := ''BRANCH INDIRECT.'', Mnemonic := ''BR'',
                     AddressingMode := ''indirect'', VarStrings := [''wreg'']\<rparr>, val)
        else (instr, val AND 0xFE));
     name \<leftarrow> index (VarStrings instr) 0;
     let vo = VarObj name;
     let str = ''[R_%02X]'';
     let str = regName str val;
     let instr = Jump str val instr;
     let instr = XRef str val instr;
     let vo = vo\<lparr>Value := Sprintf str [val]\<rparr>;
     t0 \<leftarrow> index (VarTypes instr) 0;
     let vo = vo\<lparr>Type := t0\<rparr>;
     let vars = Map.empty(name \<mapsto> vo);
     Some (instr\<lparr>Checked := True, Vars := vars\<rparr>)
   }"

text \<open>\<^verbatim>\<open>case 0xE7, 0xEF\<close>: \<^verbatim>\<open>LJMP\<close> and \<^verbatim>\<open>LCALL\<close>.\<close>

definition doLJMP :: "regNameFn \<Rightarrow> Instruction \<Rightarrow> Instruction option" where
  "doLJMP regName instr = do {
     b1 \<leftarrow> index (RawOps instr) 0;
     b2 \<leftarrow> index (RawOps instr) 1;
     let offset = le16 b1 b2;
     let cadd = VarObj ''cadd'';
     let str = ''0x%X'';
     let val = target instr offset;
     let str = regName str val;
     let instr = (if Mnemonic instr = ''LCALL'' then Call str val instr else Jump str val instr);
     let cadd = cadd\<lparr>Value := Sprintf str [val]\<rparr>;
     t0 \<leftarrow> index (VarTypes instr) 0;
     let cadd = cadd\<lparr>Type := t0\<rparr>;
     let vars = Map.empty(''cadd'' \<mapsto> cadd);
     Some (instr\<lparr>Checked := True, Vars := vars\<rparr>)
   }"

text \<open>
  \<^verbatim>\<open>doE0\<close>: the switch on the opcode. An opcode of no case, and an addressing mode of
  no inner case, fall through to \<^verbatim>\<open>instr.Vars = vars\<close> with the empty map.
\<close>

definition doE0 :: "regNameFn \<Rightarrow> Instruction \<Rightarrow> Instruction option" where
  "doE0 regName instr =
     (if Op instr = 0xE0 \<or> Op instr = 0xE1 then doDJNZ regName instr
      else if Op instr = 0xEA \<or> Op instr = 0xEB \<or> Op instr = 0xE8 \<or> Op instr = 0xE9 then
        (if AddressingMode instr = ''extended-indexed'' then extendedIndexed regName instr
         else if AddressingMode instr = ''extended-indirect'' then extendedIndirect regName instr
         else Some (instr\<lparr>Vars := Map.empty\<rparr>))
      else if Op instr = 0xE6 then doEJMP regName instr
      else if Op instr = 0xE3 then doBR regName instr
      else if Op instr = 0xE7 \<or> Op instr = 0xEF then doLJMP regName instr
      else Some (instr\<lparr>Vars := Map.empty\<rparr>))"

subsection \<open>The resolvers of the \<open>0xC0\<close>, the low and the middle opcodes\<close>

text \<open>
  Each \<^verbatim>\<open>for i, varStr := range instr.VarStrings\<close> loop is a function on the operand
  names still to visit, the position \<open>i\<close>, the byte index \<open>b\<close> (which the loop
  decrements), the map \<open>vars\<close> built so far and the instruction; it returns the map and
  the instruction, or \<open>None\<close> when an index is out of range. The loops are named after
  the resolver and the case they stand in.

  Storing a finished operand: \<^verbatim>\<open>vo.Type = instr.VarTypes[i]; vars[varStr] = vo\<close>.
\<close>

definition storeVar ::
  "Instruction \<Rightarrow> int \<Rightarrow> string \<Rightarrow> Variable \<Rightarrow> (string \<rightharpoonup> Variable) \<Rightarrow> (string \<rightharpoonup> Variable) option" where
  "storeVar instr i varStr vo vars = do {
     t \<leftarrow> index (VarTypes instr) i;
     Some (vars(varStr \<mapsto> vo\<lparr>Type := t\<rparr>))
   }"

fun c0Direct :: "regNameFn \<Rightarrow> string list \<Rightarrow> int \<Rightarrow> int \<Rightarrow> (string \<rightharpoonup> Variable) \<Rightarrow> Instruction
    \<Rightarrow> ((string \<rightharpoonup> Variable) \<times> Instruction) option" where
  "c0Direct regName [] i b vars instr = Some (vars, instr)"
| "c0Direct regName (varStr # rest) i b vars instr = do {
     rb \<leftarrow> index (RawOps instr) b;
     let val = uint rb;
     let str = ''R_%02X'';
     let str = regName str val;
     let instr = XRef str val instr;
     let vo = VarObj varStr;
     let vo = vo\<lparr>Value := Sprintf str [val]\<rparr>;
     vars \<leftarrow> storeVar instr i varStr vo vars;
     c0Direct regName rest (i + 1) (b - 1) vars (instr\<lparr>Checked := True\<rparr>)
   }"

fun c0Immediate :: "regNameFn \<Rightarrow> string list \<Rightarrow> int \<Rightarrow> (string \<rightharpoonup> Variable) \<Rightarrow> Instruction
    \<Rightarrow> ((string \<rightharpoonup> Variable) \<times> Instruction) option" where
  "c0Immediate regName [] i vars instr = Some (vars, instr)"
| "c0Immediate regName (varStr # rest) i vars instr = do {
     let vo = VarObj varStr;
     r1 \<leftarrow> index (RawOps instr) 1;
     r0 \<leftarrow> index (RawOps instr) 0;
     let val = le16 r0 r1;
     let str = ''#%04X'';
     let str = regName str val;
     let instr = XRef str val instr;
     let vo = vo\<lparr>Value := Sprintf str [val]\<rparr>;
     vars \<leftarrow> storeVar instr i varStr vo vars;
     c0Immediate regName rest (i + 1) vars instr
   }"

fun c0Indirect :: "regNameFn \<Rightarrow> string list \<Rightarrow> int \<Rightarrow> int \<Rightarrow> (string \<rightharpoonup> Variable) \<Rightarrow> Instruction
    \<Rightarrow> ((string \<rightharpoonup> Variable) \<times> Instruction) option" where
  "c0Indirect regName [] i b vars instr = Some (vars, instr)"
| "c0Indirect regName (varStr # rest) i b vars instr = do {
     let str = ''R_%02X'';
     rb \<leftarrow> index (RawOps instr) b;
     let val = uint (rb AND 0xFE);
     let (str, val) =
       (if b = 0
        then (if AutoIncrement instr then (''[R_%02X]'' @ ''+'', val AND 0xFE) else (''[R_%02X]'', val))
        else (str, val));
     let str = regName str val;
     let vo = VarObj varStr;
     let vo = vo\<lparr>Value := Sprintf str [val]\<rparr>;
     vars \<leftarrow> storeVar instr i varStr vo vars;
     c0Indirect regName rest (i + 1) (b - 1) vars instr
   }"

fun c0ShortIndexed :: "regNameFn \<Rightarrow> string list \<Rightarrow> int \<Rightarrow> int \<Rightarrow> (string \<rightharpoonup> Variable) \<Rightarrow> Instruction
    \<Rightarrow> ((string \<rightharpoonup> Variable) \<times> Instruction) option" where
  "c0ShortIndexed regName [] i b vars instr = Some (vars, instr)"
| "c0ShortIndexed regName (varStr # rest) i b vars instr = do {
     let vo = VarObj varStr;
     rb \<leftarrow> index (RawOps instr) b;
     let val = uint rb;
     let str = ''R_%02X'';
     let str = regName str val;
     let instr = XRef str val instr;
     (vo, instr) \<leftarrow>
       (if i + 1 = VarCount instr then do {
          let offset = uint rb;
          let offStr = ''0x%02X'';
          let offStr = regName offStr offset;
          let instr = XRef offStr offset instr;
          rb1 \<leftarrow> index (RawOps instr) (b - 1);
          let val = uint (rb1 AND 0xFE);
          let str = ''[R_%02X'';
          let str = Sprintf (offStr @ str @ '']'') [offset, val];
          let str = regName str val;
          Some (vo\<lparr>Value := str\<rparr>, instr)
        } else Some (vo\<lparr>Value := Sprintf str [val]\<rparr>, instr));
     vars \<leftarrow> storeVar instr i varStr vo vars;
     c0ShortIndexed regName rest (i + 1) (b - 1) vars instr
   }"

text \<open>
  The \<^verbatim>\<open>"long-indexed"\<close> loop, the same text in \<^verbatim>\<open>doC0\<close> and in \<^verbatim>\<open>doMIDDLE\<close>.
\<close>

fun longIndexed :: "regNameFn \<Rightarrow> string list \<Rightarrow> int \<Rightarrow> int \<Rightarrow> (string \<rightharpoonup> Variable) \<Rightarrow> Instruction
    \<Rightarrow> ((string \<rightharpoonup> Variable) \<times> Instruction) option" where
  "longIndexed regName [] i b vars instr = Some (vars, instr)"
| "longIndexed regName (varStr # rest) i b vars instr = do {
     let vo = VarObj varStr;
     rb \<leftarrow> index (RawOps instr) b;
     let val = uint rb;
     let str = ''R_%02X'';
     (vo, instr) \<leftarrow>
       (if i + 1 = VarCount instr then do {
          rb1 \<leftarrow> index (RawOps instr) (b - 1);
          let offset = le16 rb1 rb;
          let offStr = ''0x%04X'';
          let offStr = regName offStr offset;
          let instr = XRef offStr offset instr;
          rb2 \<leftarrow> index (RawOps instr) (b - 2);
          let val = uint (rb2 AND 0xFE);
          let str = ''[R_%02X'';
          let str = regName str val;
          let instr = XRef str val instr;
          let value = Sprintf (offStr @ str @ '']'') [offset, val];
          Some (vo\<lparr>Value := value\<rparr>, instr)
        } else do {
          let str = regName str val;
          let vo = vo\<lparr>Value := Sprintf str [val]\<rparr>;
          let instr = XRef str val instr;
          Some (vo, instr)
        });
     vars \<leftarrow> storeVar instr i varStr vo vars;
     longIndexed regName rest (i + 1) (b - 1) vars instr
   }"

text \<open>
  \<^verbatim>\<open>doC0\<close> sets \<^verbatim>\<open>Checked\<close> first, whatever the case. \<^verbatim>\<open>len(instr.RawOps) - 1\<close> is
  the first byte index of the loops.
\<close>

definition lastIndex :: "Instruction \<Rightarrow> int" where
  "lastIndex instr = int (length (RawOps instr)) - 1"

definition setVars :: "((string \<rightharpoonup> Variable) \<times> Instruction) \<Rightarrow> Instruction" where
  "setVars r = (snd r)\<lparr>Vars := fst r\<rparr>"

definition doC0 :: "regNameFn \<Rightarrow> Instruction \<Rightarrow> Instruction option" where
  "doC0 regName instr0 = do {
     let vars = Map.empty;
     let instr = instr0\<lparr>Checked := True\<rparr>;
     r \<leftarrow>
       (if Op instr = 0xC1 \<or> Op instr = 0xC5 \<or> AddressingMode instr = ''direct''
        then c0Direct regName (VarStrings instr) 0 (lastIndex instr) vars instr
        else if AddressingMode instr = ''immediate'' then do {
          r \<leftarrow> c0Immediate regName (VarStrings instr) 0 vars instr;
          Some (fst r, (snd r)\<lparr>Checked := True\<rparr>) }
        else if AddressingMode instr = ''indirect'' \<or> AddressingMode instr = ''indirect+'' then do {
          r \<leftarrow> c0Indirect regName (VarStrings instr) 0 (lastIndex instr) vars instr;
          Some (fst r, (snd r)\<lparr>Checked := True\<rparr>) }
        else if AddressingMode instr = ''indexed'' \<or> AddressingMode instr = ''short-indexed'' then do {
          r \<leftarrow> c0ShortIndexed regName (VarStrings instr) 0 (lastIndex instr) vars instr;
          Some (fst r, (snd r)\<lparr>Checked := True\<rparr>) }
        else if AddressingMode instr = ''long-indexed'' then do {
          r \<leftarrow> longIndexed regName (VarStrings instr) 0 (lastIndex instr) vars instr;
          Some (fst r, (snd r)\<lparr>Checked := True\<rparr>) }
        else Some (vars, instr));
     Some (setVars r)
   }"

text \<open>
  The loop of \<^verbatim>\<open>do00\<close>. The test \<^verbatim>\<open>instr.RawOps[0] < 0x10\<close> is the last operand of
  \<^verbatim>\<open>&&\<close> and is only evaluated when the tests before it hold.
\<close>

fun lowLoop :: "regNameFn \<Rightarrow> string list \<Rightarrow> int \<Rightarrow> int \<Rightarrow> (string \<rightharpoonup> Variable) \<Rightarrow> Instruction
    \<Rightarrow> ((string \<rightharpoonup> Variable) \<times> Instruction) option" where
  "lowLoop regName [] i b vars instr = Some (vars, instr)"
| "lowLoop regName (varStr # rest) i b vars instr = do {
     let vo = VarObj varStr;
     rb \<leftarrow> index (RawOps instr) b;
     let val = uint rb;
     let str = ''R_%02X'';
     let str = regName str val;
     let instr = XRef str val instr;
     str \<leftarrow>
       (if Op instr AND 0x08 = 0x08 \<and> b = 0 \<and> Op instr \<noteq> 0x0F then do {
          r0 \<leftarrow> index (RawOps instr) 0;
          Some (if r0 < 0x10 then ''#%02X'' else str)
        } else Some str);
     let vo = vo\<lparr>Value := Sprintf str [val]\<rparr>;
     vars \<leftarrow> storeVar instr i varStr vo vars;
     lowLoop regName rest (i + 1) (b - 1) vars instr
   }"

definition do00 :: "regNameFn \<Rightarrow> Instruction \<Rightarrow> Instruction option" where
  "do00 regName instr =
     (if Op instr = 0x1F \<or> Op instr = 0x1D then
        (if AddressingMode instr = ''extended-indexed'' then extendedIndexed regName instr
         else if AddressingMode instr = ''extended-indirect'' then extendedIndirect regName instr
         else Some instr)
      else do {
        r \<leftarrow> lowLoop regName (VarStrings instr) 0 (lastIndex instr) Map.empty instr;
        Some ((setVars r)\<lparr>Checked := True\<rparr>)
      })"

fun middleDirect :: "regNameFn \<Rightarrow> string list \<Rightarrow> int \<Rightarrow> int \<Rightarrow> (string \<rightharpoonup> Variable) \<Rightarrow> Instruction
    \<Rightarrow> ((string \<rightharpoonup> Variable) \<times> Instruction) option" where
  "middleDirect regName [] i b vars instr = Some (vars, instr)"
| "middleDirect regName (varStr # rest) i b vars instr = do {
     let str = ''R_%02X'';
     rb \<leftarrow> index (RawOps instr) b;
     let val = uint rb;
     let str = regName str val;
     let instr = XRef str val instr;
     let vo = VarObj varStr;
     let vo = vo\<lparr>Value := Sprintf str [val]\<rparr>;
     vars \<leftarrow> storeVar instr i varStr vo vars;
     middleDirect regName rest (i + 1) (b - 1) vars instr
   }"

text \<open>The \<^verbatim>\<open>"immediate"\<close> case with a byte constant (\<^verbatim>\<open>instr.Op&0x10 == 0x10\<close>).\<close>

fun middleImmByte :: "regNameFn \<Rightarrow> string list \<Rightarrow> int \<Rightarrow> int \<Rightarrow> (string \<rightharpoonup> Variable) \<Rightarrow> Instruction
    \<Rightarrow> ((string \<rightharpoonup> Variable) \<times> Instruction) option" where
  "middleImmByte regName [] i b vars instr = Some (vars, instr)"
| "middleImmByte regName (varStr # rest) i b vars instr = do {
     rb \<leftarrow> index (RawOps instr) b;
     let val = uint rb;
     let str = ''R_%02X'';
     let str = regName str val;
     let (str, instr) = (if b = 0 then (''#%02X'', instr) else (str, XRef str val instr));
     let vo = VarObj varStr;
     let vo = vo\<lparr>Value := Sprintf str [val]\<rparr>;
     vars \<leftarrow> storeVar instr i varStr vo vars;
     middleImmByte regName rest (i + 1) (b - 1) vars instr
   }"

text \<open>The \<^verbatim>\<open>"immediate"\<close> case with a word constant.\<close>

fun middleImmWord :: "regNameFn \<Rightarrow> string list \<Rightarrow> int \<Rightarrow> int \<Rightarrow> (string \<rightharpoonup> Variable) \<Rightarrow> Instruction
    \<Rightarrow> ((string \<rightharpoonup> Variable) \<times> Instruction) option" where
  "middleImmWord regName [] i b vars instr = Some (vars, instr)"
| "middleImmWord regName (varStr # rest) i b vars instr = do {
     rb \<leftarrow> index (RawOps instr) b;
     let val = uint rb;
     let str = ''R_%02X'';
     let str = regName str val;
     (str, val, instr) \<leftarrow>
       (if b = 1 then do {
          r1 \<leftarrow> index (RawOps instr) 1;
          r0 \<leftarrow> index (RawOps instr) 0;
          Some (''#%04X'', le16 r0 r1, instr)
        } else Some (str, val, XRef str val instr));
     let vo = VarObj varStr;
     let vo = vo\<lparr>Value := Sprintf str [val]\<rparr>;
     vars \<leftarrow> storeVar instr i varStr vo vars;
     middleImmWord regName rest (i + 1) (b - 1) vars instr
   }"

fun middleIndirect :: "regNameFn \<Rightarrow> string list \<Rightarrow> int \<Rightarrow> int \<Rightarrow> (string \<rightharpoonup> Variable) \<Rightarrow> Instruction
    \<Rightarrow> ((string \<rightharpoonup> Variable) \<times> Instruction) option" where
  "middleIndirect regName [] i b vars instr = Some (vars, instr)"
| "middleIndirect regName (varStr # rest) i b vars instr = do {
     let str = ''R_%02X'';
     rb \<leftarrow> index (RawOps instr) b;
     let val = uint (rb AND 0xFE);
     let str = regName str val;
     let (str, val) =
       (if b = 0
        then (if AutoIncrement instr
              then (regName (''[R_%02X'' @ ''+'') (val AND 0xFE) @ '']'', val AND 0xFE)
              else (regName ''[R_%02X'' val @ '']'', val))
        else (str, val));
     let instr = XRef str val instr;
     let vo = VarObj varStr;
     let vo = vo\<lparr>Value := Sprintf str [val]\<rparr>;
     vars \<leftarrow> storeVar instr i varStr vo vars;
     middleIndirect regName rest (i + 1) (b - 1) vars instr
   }"

fun middleShortIndexed :: "regNameFn \<Rightarrow> string list \<Rightarrow> int \<Rightarrow> int \<Rightarrow> (string \<rightharpoonup> Variable) \<Rightarrow> Instruction
    \<Rightarrow> ((string \<rightharpoonup> Variable) \<times> Instruction) option" where
  "middleShortIndexed regName [] i b vars instr = Some (vars, instr)"
| "middleShortIndexed regName (varStr # rest) i b vars instr = do {
     let vo = VarObj varStr;
     let str = ''R_%02X'';
     rb \<leftarrow> index (RawOps instr) b;
     let val = uint rb;
     let str = regName str val;
     let instr = XRef str val instr;
     (vo, instr) \<leftarrow>
       (if i + 1 = VarCount instr then do {
          let offset = uint rb;
          let offStr = ''0x%02X'';
          let offStr = regName offStr offset;
          let instr = XRef offStr offset instr;
          rb1 \<leftarrow> index (RawOps instr) (b - 1);
          let val = uint (rb1 AND 0xFE);
          let str = ''[R_%02X'';
          let str = regName str val;
          let instr = XRef str val instr;
          let value = Sprintf (offStr @ str @ '']'') [offset, val];
          Some (vo\<lparr>Value := value\<rparr>, instr)
        } else Some (vo\<lparr>Value := Sprintf str [val]\<rparr>, instr));
     vars \<leftarrow> storeVar instr i varStr vo vars;
     middleShortIndexed regName rest (i + 1) (b - 1) vars instr
   }"

text \<open>
  \<^verbatim>\<open>doMIDDLE\<close>: the switch on the addressing mode. A mode of no case leaves
  \<^verbatim>\<open>Checked\<close> as it is.
\<close>

definition doMIDDLE :: "regNameFn \<Rightarrow> Instruction \<Rightarrow> Instruction option" where
  "doMIDDLE regName instr = do {
     let vars = Map.empty;
     r \<leftarrow>
       (if AddressingMode instr = ''direct'' then do {
          r \<leftarrow> middleDirect regName (VarStrings instr) 0 (lastIndex instr) vars instr;
          Some (fst r, (snd r)\<lparr>Checked := True\<rparr>) }
        else if AddressingMode instr = ''immediate'' then do {
          r \<leftarrow> (if Op instr AND 0x10 = 0x10
                then middleImmByte regName (VarStrings instr) 0 (lastIndex instr) vars instr
                else middleImmWord regName (VarStrings instr) 0 (lastIndex instr) vars instr);
          Some (fst r, (snd r)\<lparr>Checked := True\<rparr>) }
        else if AddressingMode instr = ''indirect'' \<or> AddressingMode instr = ''indirect+'' then do {
          r \<leftarrow> middleIndirect regName (VarStrings instr) 0 (lastIndex instr) vars instr;
          Some (fst r, (snd r)\<lparr>Checked := True\<rparr>) }
        else if AddressingMode instr = ''indexed'' \<or> AddressingMode instr = ''short-indexed'' then do {
          r \<leftarrow> middleShortIndexed regName (VarStrings instr) 0 (lastIndex instr) vars instr;
          Some (fst r, (snd r)\<lparr>Checked := True\<rparr>) }
        else if AddressingMode instr = ''long-indexed'' then do {
          r \<leftarrow> longIndexed regName (VarStrings instr) 0 (lastIndex instr) vars instr;
          Some (fst r, (snd r)\<lparr>Checked := True\<rparr>) }
        else Some (vars, instr));
     Some (setVars r)
   }"

subsection \<open>The pseudocode synthesizer\<close>

text \<open>The cosmetic replacements of \<^verbatim>\<open>doPseudo\<close> on an operand value, in source order.\<close>

definition cosmetic :: "string \<Rightarrow> string" where
  "cosmetic val0 =
     (let val = replaceFirst val0 ''[R_00 ~(Zero Register)]'' '''';
          val = replaceFirst val ''R_'' ''$r_'';
          val = replaceFirst val ''[$r_00]'' '''';
          val = replaceFirst val ''$r_00'' ''0x00'';
          val = replaceFirst val ''$r_02'' ''0x11'';
          val = replaceFirst val '' ~('' '' ('';
          val = replaceFirst val '' ~'' '''';
          val = replaceFirst val ''$r_02 (Ones Register)'' ''0x11'';
          val = replaceFirst val '' (Ones Register)'' '''';
          val = replaceFirst val ''#'' ''0x'';
          val = replaceFirst val '' ( GP Reg RAM )'' ''''
      in val)"

text \<open>
  The loop over \<^verbatim>\<open>instr.VarStrings\<close> that fills the array \<^verbatim>\<open>v\<close> of three strings;
  \<^verbatim>\<open>DJNZ\<close> and \<^verbatim>\<open>DJNZW\<close> leave the loop in its first round.
\<close>

fun pseudoLoop :: "Instruction \<Rightarrow> string list \<Rightarrow> string \<times> string \<times> string \<Rightarrow> string \<times> string \<times> string" where
  "pseudoLoop instr [] v = v"
| "pseudoLoop instr (varStr # rest) (v0, v1, v2) =
     (if Mnemonic instr = ''DJNZ'' \<or> Mnemonic instr = ''DJNZW''
      then (Value (getVar (Vars instr) ''cadd''), Value (getVar (Vars instr) ''breg''), v2)
      else
        (let val = cosmetic (Value (getVar (Vars instr) varStr));
             ty = Type (getVar (Vars instr) varStr)
         in pseudoLoop instr rest
              (if ty = ''DEST''
                 then (replaceFirst (replaceFirst val ''0x000'' ''$r_'') ''0x'' ''$r_'', v1, v2)
               else if ty = ''ADDR'' then (val, v1, v2)
               else if ty = ''PTRS'' then (val, v1, v2)
               else if ty = ''BYTEREG'' then (v0, v1, val)
               else (v0, val, v2))))"

text \<open>
  The switch on the mnemonic; every format has only \<^verbatim>\<open>%s\<close> verbs and as many string
  operands, so \<^verbatim>\<open>fmt.Sprintf\<close> is concatenation. The format of the conditional jumps
  starts with a tab character.
\<close>

definition pseudoText :: "string \<Rightarrow> string \<times> string \<times> string \<Rightarrow> string" where
  "pseudoText m v =
     (case v of (v0, v1, v2) \<Rightarrow>
      if m \<in> set [''CLR'', ''CLRB''] then v0 @ '' = 0x00''
      else if m = ''EXT'' then ''SIGN EXTEND INT '' @ v0 @ '' TO LONG INT''
      else if m = ''EXTB'' then ''SIGN EXTEND SHORT INT '' @ v0 @ '' TO INT''
      else if m \<in> set [''JNST'', ''JNH'', ''JGT'', ''JNC'', ''JNVT'', ''JNV'', ''JGE'', ''JNE'',
                        ''JST'', ''JH'', ''JLE'', ''JC'', ''JVT'', ''JV'', ''JLT'', ''JE'']
        then CHR 0x09 # ''JUMP TO: '' @ v0
      else if m = ''JBS'' then ''if bitno: ('' @ v1 @ '') of '' @ v2 @ '' is set { JUMP TO: '' @ v0 @ '' }''
      else if m = ''JBC'' then ''if bitno: ('' @ v1 @ '') of '' @ v2 @ '' is clear { JUMP TO: '' @ v0 @ '' }''
      else if m \<in> set [''LJMP'', ''SJMP'', ''EBR'', ''EJMP''] then ''JUMP TO: '' @ v0
      else if m \<in> set [''ECALL'', ''CALL'', ''SCALL'', ''LCALL''] then ''CALL SUB_ '' @ v0
      else if m = ''PUSH'' then ''PUSH '' @ v1 @ '' ONTO THE STACK''
      else if m = ''POP'' then ''POP THE STACK TO '' @ v0
      else if m \<in> set [''CMPB'', ''CMP'', ''CMPL''] then ''if ('' @ v0 @ '' == '' @ v1 @ '') {''
      else if m \<in> set [''ANDB'', ''AND'', ''ADDB''] then v0 @ '' = '' @ v0 @ '' & '' @ v1
      else if m \<in> set [''ORB'', ''OR'', ''XOR'', ''XORB''] then v0 @ '' = '' @ v0 @ '' '' @ m @ '' '' @ v1
      else if m \<in> set [''NOT'', ''NOTB'', ''NEG'', ''NEGB''] then v0 @ '' = '' @ v0 @ '' '' @ m @ '' '' @ v0
      else if m \<in> set [''ADD'', ''ADDC'', ''ADDCB''] then v0 @ '' = '' @ v0 @ '' + '' @ v1
      else if m \<in> set [''XCH'', ''XCHB''] then v0 @ '' <='' @ m @ ''=> '' @ v1
      else if m \<in> set [''SUB'', ''SUBC'', ''SUBCB'', ''SUBB''] then v0 @ '' = '' @ v0 @ '' - '' @ v1
      else if m \<in> set [''MUL'', ''MULB'', ''MULU'', ''MULUB'', ''SGN MUL'', ''SGN MULB'']
        then v0 @ '' = '' @ v0 @ '' * '' @ v1
      else if m \<in> set [''DIV'', ''DIVU'', ''DIVUB'', ''SGN DIVB'', ''SGN DIV'']
        then v0 @ '' = '' @ v0 @ '' / '' @ v1
      else if m \<in> set [''SHR'', ''SHRL'', ''SHRAL'', ''SHRB''] then v0 @ '' >> '' @ v1
      else if m \<in> set [''SHL'', ''SHLL'', ''SHLB'', ''SHRA''] then v0 @ '' << '' @ v1
      else if m \<in> set [''DEC'', ''DECB''] then v0 @ ''--''
      else if m \<in> set [''INC'', ''INCB''] then v0 @ ''++''
      else if m \<in> set [''LD'', ''LDB'', ''ELD'', ''ELDB'', ''STB'', ''ESTB'', ''ST'', ''EST'', ''LDBZE'', ''LDBSE'']
        then v0 @ '' = '' @ v1
      else if m = ''NORML'' then ''NORMALIZE '' @ v0 @ '' (todo)''
      else if m \<in> set [''BMOV'', ''BMOVI''] then ''BMOV '' @ v0 @ '' count('' @ v1 @ '') (todo)''
      else if m \<in> set [''DJNZ'', ''DJNZW'']
        then v1 @ ''--; if ( '' @ v1 @ '' != 0 ) { JUMP TO: '' @ v0 @ '' }''
      else ''########### '' @ v0 @ '' = '' @ v1)"

definition doPseudo :: "Instruction \<Rightarrow> Instruction" where
  "doPseudo instr =
     instr\<lparr>PseudoCode := pseudoText (Mnemonic instr) (pseudoLoop instr (VarStrings instr) ('''', '''', ''''))\<rparr>"

subsection \<open>The opcode tables\<close>

text \<open>
  An entry of the tables, with the fields in the order of the source's literals:
  \<^verbatim>\<open>Mnemonic\<close>, \<^verbatim>\<open>ByteLength\<close>, \<^verbatim>\<open>VarCount\<close>, \<^verbatim>\<open>VarTypes\<close>, \<^verbatim>\<open>VarStrings\<close>,
  \<^verbatim>\<open>AddressingMode\<close>, \<^verbatim>\<open>Description\<close>, \<^verbatim>\<open>VariableLength\<close>, \<^verbatim>\<open>AutoIncrement\<close>,
  \<^verbatim>\<open>Ignore\<close>, \<^verbatim>\<open>Signed\<close>, \<^verbatim>\<open>Reserved\<close>. A field that a literal leaves out has its
  zero value, as have the fields no literal sets.
\<close>

definition template ::
  "string \<Rightarrow> int \<Rightarrow> int \<Rightarrow> string list \<Rightarrow> string list \<Rightarrow> string \<Rightarrow> string
    \<Rightarrow> bool \<Rightarrow> bool \<Rightarrow> bool \<Rightarrow> bool \<Rightarrow> bool \<Rightarrow> Instruction" where
  "template mnemonic byteLength varCount varTypes varStrings addressingMode description
      variableLength autoIncrement ignore isSigned reserved =
     zeroInstruction\<lparr>Mnemonic := mnemonic, ByteLength := byteLength, VarCount := varCount,
       VarTypes := varTypes, VarStrings := varStrings, AddressingMode := addressingMode,
       Description := description, VariableLength := variableLength,
       AutoIncrement := autoIncrement, Ignore := ignore, Signed := isSigned, Reserved := reserved\<rparr>"

text \<open>\<^verbatim>\<open>unsignedInstructions\<close>: one entry for each of the 256 opcode bytes.\<close>

definition unsignedTable :: "(byte \<times> Instruction) list" where
  "unsignedTable = [
     (0x00, template ''SKIP'' 2 0 [''ByteReg''] [''breg''] ''direct'' ''TWO BYTE NO-OPERATION.'' False False True False False),
     (0x01, template ''CLR'' 2 1 [''DEST''] [''wreg''] ''direct'' ''CLEAR WORD.'' False False False False False),
     (0x02, template ''NOT'' 2 1 [''DEST''] [''wreg''] ''direct'' ''COMPLEMENT WORD.'' False False False False False),
     (0x03, template ''NEG'' 2 1 [''DEST''] [''wreg''] ''direct'' ''NEGATE INTEGER.'' False False False False False),
     (0x04, template ''XCH'' 3 2 [''DEST'', ''SRC''] [''wreg'', ''waop''] ''direct'' ''EXCHANGE WORD.'' False False False False False),
     (0x05, template ''DEC'' 2 1 [''DEST''] [''breg''] ''direct'' ''DECREMENT WORD.'' False False False False False),
     (0x06, template ''EXT'' 2 1 [''DEST''] [''lreg''] ''direct'' ''SIGN-EXTEND INTEGER INTO LONGINTEGER.'' False False False False False),
     (0x07, template ''INC'' 2 1 [''DEST''] [''wreg''] ''direct'' ''INCREMENT WORD.'' False False False False False),
     (0x08, template ''SHR'' 3 2 [''DEST'', ''COUNT''] [''wreg'', ''breg/#count''] ''direct'' ''LOGICAL RIGHT SHIFT WORD.'' False False False False False),
     (0x09, template ''SHL'' 3 2 [''DEST'', ''COUNT''] [''wreg'', ''breg/#count''] ''direct'' ''SHIFT WORD LEFT.'' False False False False False),
     (0x0A, template ''SHRA'' 3 2 [''DEST'', ''COUNT''] [''wreg'', ''breg/#count''] ''direct'' ''ARITHMETIC RIGHT SHIFT WORD.'' False False False False False),
     (0x0B, template ''XCH'' 4 2 [''DEST'', ''SRC''] [''wreg'', ''waop''] ''indexed'' ''EXCHANGE WORD'' True False False False False),
     (0x0C, template ''SHRL'' 3 2 [''DEST'', ''COUNT''] [''lreg'', ''breg/#count''] ''direct'' ''LOGICAL RIGHT SHIFT DOUBLE-WORD.'' False False False False False),
     (0x0D, template ''SHLL'' 3 2 [''DEST'', ''COUNT''] [''lreg'', ''breg/#count''] ''direct'' ''SHIFT DOUBLE-WORD LEFT.'' False False False False False),
     (0x0E, template ''SHRAL'' 3 2 [''DEST'', ''COUNT''] [''lreg'', ''breg/#count''] ''direct'' ''ARITHMETIC RIGHT SHIFT DOUBLEWORD.'' False False False False False),
     (0x0F, template ''NORML'' 3 2 [''SRC'', ''DEST''] [''lreg'', ''breg''] ''direct'' ''NORMALIZE LONG-INTEGER.'' False False False False False),
     (0x10, template ''Reserved'' 1 0 [] [] [] [] False False False False True),
     (0x11, template ''CLRB'' 2 1 [''DEST''] [''breg''] ''direct'' ''CLEAR BYTE.'' False False False False False),
     (0x12, template ''NOTB'' 2 1 [''DEST''] [''breg''] ''direct'' ''COMPLEMENT BYTE.'' False False False False False),
     (0x13, template ''NEGB'' 2 1 [''DEST''] [''breg''] ''direct'' ''NEGATE SHORT-INTEGER.'' False False False False False),
     (0x14, template ''XCHB'' 3 2 [''DEST'', ''SRC''] [''breg'', ''baop''] ''direct'' ''EXCHANGE BYTE.'' False False False False False),
     (0x15, template ''DECB'' 2 1 [''DEST''] [''breg''] ''direct'' ''DECREMENT BYTE.'' False False False False False),
     (0x16, template ''EXTB'' 2 1 [''DEST''] [''wreg''] ''direct'' ''SIGN-EXTEND SHORT-INTEGER INTO INTEGER.'' False False False False False),
     (0x17, template ''INCB'' 2 1 [''DEST''] [''breg''] ''direct'' ''INCREMENT BYTE.'' False False False False False),
     (0x18, template ''SHRB'' 3 2 [''DEST'', ''COUNT''] [''breg'', ''breg/#count''] ''direct'' ''LOGICAL RIGHT SHIFT BYTE.'' False False False False False),
     (0x19, template ''SHLB'' 3 2 [''DEST'', ''COUNT''] [''breg'', ''breg/#count''] ''direct'' ''SHIFT BYTE LEFT.'' False False False False False),
     (0x1A, template ''SHRAB'' 3 2 [''DEST'', ''COUNT''] [''breg'', ''breg/#count''] ''direct'' [] False False False False False),
     (0x1B, template ''XCHB'' 4 2 [''DEST'', ''COUNT''] [''breg'', ''breg/#count''] ''indexed'' ''ARITHMETIC RIGHT SHIFT BYTE.'' True False False False False),
     (0x1C, template ''EST'' 3 2 [''SRC'', ''DEST''] [''wreg'', ''treg''] ''extended-indirect'' ''EXTENDED STORE WORD.'' False False False False False),
     (0x1D, template ''EST'' 6 2 [''SRC'', ''DEST''] [''wreg'', ''treg''] ''extended-indexed'' ''EXTENDED STORE WORD.'' False False False False False),
     (0x1E, template ''ESTB'' 3 2 [''SRC'', ''DEST''] [''breg'', ''treg''] ''extended-indirect'' ''EXTENDED STORE BYTE.'' False False False False False),
     (0x1F, template ''ESTB'' 6 2 [''SRC'', ''DEST''] [''breg'', ''treg''] ''extended-indexed'' ''EXTENDED STORE BYTE.'' False False False False False),
     (0x20, template ''SJMP'' 2 1 [''ADDR''] [''cadd''] ''indexed'' ''SHORT JUMP.'' False False False False False),
     (0x21, template ''SJMP'' 2 1 [''ADDR''] [''cadd''] ''indexed'' ''SHORT JUMP.'' False False False False False),
     (0x22, template ''SJMP'' 2 1 [''ADDR''] [''cadd''] ''indexed'' ''SHORT JUMP.'' False False False False False),
     (0x23, template ''SJMP'' 2 1 [''ADDR''] [''cadd''] ''indexed'' ''SHORT JUMP.'' False False False False False),
     (0x24, template ''SJMP'' 2 1 [''ADDR''] [''cadd''] ''indexed'' ''SHORT JUMP.'' False False False False False),
     (0x25, template ''SJMP'' 2 1 [''ADDR''] [''cadd''] ''indexed'' ''SHORT JUMP.'' False False False False False),
     (0x26, template ''SJMP'' 2 1 [''ADDR''] [''cadd''] ''indexed'' ''SHORT JUMP.'' False False False False False),
     (0x27, template ''SJMP'' 2 1 [''ADDR''] [''cadd''] ''indexed'' ''SHORT JUMP.'' False False False False False),
     (0x28, template ''SCALL'' 2 1 [''ADDR''] [''cadd''] ''indexed'' ''SHORT CALL.'' False False False False False),
     (0x29, template ''SCALL'' 2 1 [''ADDR''] [''cadd''] ''indexed'' ''SHORT CALL.'' False False False False False),
     (0x2A, template ''SCALL'' 2 1 [''ADDR''] [''cadd''] ''indexed'' ''SHORT CALL.'' False False False False False),
     (0x2B, template ''SCALL'' 2 1 [''ADDR''] [''cadd''] ''indexed'' ''SHORT CALL.'' False False False False False),
     (0x2C, template ''SCALL'' 2 1 [''ADDR''] [''cadd''] ''indexed'' ''SHORT CALL.'' False False False False False),
     (0x2D, template ''SCALL'' 2 1 [''ADDR''] [''cadd''] ''indexed'' ''SHORT CALL.'' False False False False False),
     (0x2E, template ''SCALL'' 2 1 [''ADDR''] [''cadd''] ''indexed'' ''SHORT CALL.'' False False False False False),
     (0x2F, template ''SCALL'' 2 1 [''ADDR''] [''cadd''] ''indexed'' ''SHORT CALL.'' False False False False False),
     (0x30, template ''JBC'' 3 3 [''BYTEREG'', ''BITNO'', ''ADDR''] [''breg'', ''bitno'', ''cadd''] ''indexed'' ''JUMP IF BIT IS CLEAR.'' False False False False False),
     (0x31, template ''JBC'' 3 3 [''BYTEREG'', ''BITNO'', ''ADDR''] [''breg'', ''bitno'', ''cadd''] ''indexed'' ''JUMP IF BIT IS CLEAR.'' False False False False False),
     (0x32, template ''JBC'' 3 3 [''BYTEREG'', ''BITNO'', ''ADDR''] [''breg'', ''bitno'', ''cadd''] ''indexed'' ''JUMP IF BIT IS CLEAR.'' False False False False False),
     (0x33, template ''JBC'' 3 3 [''BYTEREG'', ''BITNO'', ''ADDR''] [''breg'', ''bitno'', ''cadd''] ''indexed'' ''JUMP IF BIT IS CLEAR.'' False False False False False),
     (0x34, template ''JBC'' 3 3 [''BYTEREG'', ''BITNO'', ''ADDR''] [''breg'', ''bitno'', ''cadd''] ''indexed'' ''JUMP IF BIT IS CLEAR.'' False False False False False),
     (0x35, template ''JBC'' 3 3 [''BYTEREG'', ''BITNO'', ''ADDR''] [''breg'', ''bitno'', ''cadd''] ''indexed'' ''JUMP IF BIT IS CLEAR.'' False False False False False),
     (0x36, template ''JBC'' 3 3 [''BYTEREG'', ''BITNO'', ''ADDR''] [''breg'', ''bitno'', ''cadd''] ''indexed'' ''JUMP IF BIT IS CLEAR.'' False False False False False),
     (0x37, template ''JBC'' 3 3 [''BYTEREG'', ''BITNO'', ''ADDR''] [''breg'', ''bitno'', ''cadd''] ''indexed'' ''JUMP IF BIT IS CLEAR.'' False False False False False),
     (0x38, template ''JBS'' 3 3 [''BYTEREG'', ''BITNO'', ''ADDR''] [''breg'', ''bitno'', ''cadd''] ''indexed'' ''JUMP IF BIT IS SET.'' False False False False False),
     (0x39, template ''JBS'' 3 3 [''BYTEREG'', ''BITNO'', ''ADDR''] [''breg'', ''bitno'', ''cadd''] ''indexed'' ''JUMP IF BIT IS SET.'' False False False False False),
     (0x3A, template ''JBS'' 3 3 [''BYTEREG'', ''BITNO'', ''ADDR''] [''breg'', ''bitno'', ''cadd''] ''indexed'' ''JUMP IF BIT IS SET.'' False False False False False),
     (0x3B, template ''JBS'' 3 3 [''BYTEREG'', ''BITNO'', ''ADDR''] [''breg'', ''bitno'', ''cadd''] ''indexed'' ''JUMP IF BIT IS SET.'' False False False False False),
     (0x3C, template ''JBS'' 3 3 [''BYTEREG'', ''BITNO'', ''ADDR''] [''breg'', ''bitno'', ''cadd''] ''indexed'' ''JUMP IF BIT IS SET.'' False False False False False),
     (0x3D, template ''JBS'' 3 3 [''BYTEREG'', ''BITNO'', ''ADDR''] [''breg'', ''bitno'', ''cadd''] ''indexed'' ''JUMP IF BIT IS SET.'' False False False False False),
     (0x3E, template ''JBS'' 3 3 [''BYTEREG'', ''BITNO'', ''ADDR''] [''breg'', ''bitno'', ''cadd''] ''indexed'' ''JUMP IF BIT IS SET.'' False False False False False),
     (0x3F, template ''JBS'' 3 3 [''BYTEREG'', ''BITNO'', ''ADDR''] [''breg'', ''bitno'', ''cadd''] ''indexed'' ''JUMP IF BIT IS SET.'' False False False False False),
     (0x40, template ''AND'' 4 3 [''DEST'', ''SRC1'', ''SRC2''] [''Dwreg'', ''Swreg'', ''waop''] ''direct'' ''LOGICAL AND WORDS.'' False False False False False),
     (0x41, template ''AND'' 5 3 [''DEST'', ''SRC1'', ''SRC2''] [''Dwreg'', ''Swreg'', ''waop''] ''immediate'' ''LOGICAL AND WORDS.'' False False False False False),
     (0x42, template ''AND'' 4 3 [''DEST'', ''SRC1'', ''SRC2''] [''Dwreg'', ''Swreg'', ''waop''] ''indirect'' ''LOGICAL AND WORDS.'' False False False False False),
     (0x43, template ''AND'' 5 3 [''DEST'', ''SRC1'', ''SRC2''] [''Dwreg'', ''Swreg'', ''waop''] ''indexed'' ''LOGICAL AND WORDS.'' True False False False False),
     (0x44, template ''ADD'' 4 3 [''DEST'', ''SRC1'', ''SRC2''] [''Dwreg'', ''Swreg'', ''waop''] ''direct'' ''ADD WORDS.'' False False False False False),
     (0x45, template ''ADD'' 5 3 [''DEST'', ''SRC1'', ''SRC2''] [''Dwreg'', ''Swreg'', ''waop''] ''immediate'' ''ADD WORDS.'' False False False False False),
     (0x46, template ''ADD'' 4 3 [''DEST'', ''SRC1'', ''SRC2''] [''Dwreg'', ''Swreg'', ''waop''] ''indirect'' ''ADD WORDS.'' False False False False False),
     (0x47, template ''ADD'' 5 3 [''DEST'', ''SRC1'', ''SRC2''] [''Dwreg'', ''Swreg'', ''waop''] ''indexed'' ''ADD WORDS.'' True False False False False),
     (0x48, template ''SUB'' 4 3 [''DEST'', ''SRC1'', ''SRC2''] [''Dwreg'', ''Swreg'', ''waop''] ''direct'' ''SUBTRACT WORDS.'' False False False False False),
     (0x49, template ''SUB'' 5 3 [''DEST'', ''SRC1'', ''SRC2''] [''Dwreg'', ''Swreg'', ''waop''] ''immediate'' ''SUBTRACT WORDS.'' False False False False False),
     (0x4A, template ''SUB'' 4 3 [''DEST'', ''SRC1'', ''SRC2''] [''Dwreg'', ''Swreg'', ''waop''] ''indirect'' ''SUBTRACT WORDS.'' False False False False False),
     (0x4B, template ''SUB'' 5 3 [''DEST'', ''SRC1'', ''SRC2''] [''Dwreg'', ''Swreg'', ''waop''] ''indexed'' ''SUBTRACT WORDS.'' True False False False False),
     (0x4C, template ''MULU'' 4 3 [''DEST'', ''SRC1'', ''SRC2''] [''lreg'', ''wreg'', ''waop''] ''direct'' ''MULTIPLY WORDS, UNSIGNED.'' False False False False False),
     (0x4D, template ''MULU'' 5 3 [''DEST'', ''SRC1'', ''SRC2''] [''lreg'', ''wreg'', ''waop''] ''immediate'' ''MULTIPLY WORDS, UNSIGNED.'' False False False False False),
     (0x4E, template ''MULU'' 4 3 [''DEST'', ''SRC1'', ''SRC2''] [''lreg'', ''wreg'', ''waop''] ''indirect'' ''MULTIPLY WORDS, UNSIGNED.'' False False False False False),
     (0x4F, template ''MULU'' 5 3 [''DEST'', ''SRC1'', ''SRC2''] [''lreg'', ''wreg'', ''waop''] ''indexed'' ''MULTIPLY WORDS, UNSIGNED.'' True False False False False),
     (0x50, template ''ANDB'' 4 3 [''DEST'', ''SRC1'', ''SRC2''] [''Dbreg'', ''Sbreg'', ''baop''] ''direct'' ''LOGICAL AND BYTES.'' False False False False False),
     (0x51, template ''ANDB'' 4 3 [''DEST'', ''SRC1'', ''SRC2''] [''Dbreg'', ''Sbreg'', ''baop''] ''immediate'' ''LOGICAL AND BYTES.'' False False False False False),
     (0x52, template ''ANDB'' 4 3 [''DEST'', ''SRC1'', ''SRC2''] [''Dbreg'', ''Sbreg'', ''baop''] ''indirect'' ''LOGICAL AND BYTES.'' False False False False False),
     (0x53, template ''ANDB'' 5 3 [''DEST'', ''SRC1'', ''SRC2''] [''Dbreg'', ''Sbreg'', ''baop''] ''indexed'' ''LOGICAL AND BYTES.'' True False False False False),
     (0x54, template ''ADDB'' 4 3 [''DEST'', ''SRC1'', ''SRC2''] [''Dbreg'', ''Sbreg'', ''baop''] ''direct'' ''ADD BYTES.'' False False False False False),
     (0x55, template ''ADDB'' 4 3 [''DEST'', ''SRC1'', ''SRC2''] [''Dbreg'', ''Sbreg'', ''baop''] ''immediate'' ''ADD BYTES.'' False False False False False),
     (0x56, template ''ADDB'' 4 3 [''DEST'', ''SRC1'', ''SRC2''] [''Dbreg'', ''Sbreg'', ''baop''] ''indirect'' ''ADD BYTES.'' False False False False False),
     (0x57, template ''ADDB'' 5 3 [''DEST'', ''SRC1'', ''SRC2''] [''Dbreg'', ''Sbreg'', ''baop''] ''indexed'' ''ADD BYTES.'' True False False False False),
     (0x58, template ''SUBB'' 4 3 [''DEST'', ''SRC1'', ''SRC2''] [''Dbreg'', ''Sbreg'', ''baop''] ''direct'' ''SUBTRACT BYTES.'' False False False False False),
     (0x59, template ''SUBB'' 4 3 [''DEST'', ''SRC1'', ''SRC2''] [''Dbreg'', ''Sbreg'', ''baop''] ''immediate'' ''SUBTRACT BYTES.'' False False False False False),
     (0x5A, template ''SUBB'' 4 3 [''DEST'', ''SRC1'', ''SRC2''] [''Dbreg'', ''Sbreg'', ''baop''] ''indirect'' ''SUBTRACT BYTES.'' False False False False False),
     (0x5B, template ''SUBB'' 5 3 [''DEST'', ''SRC1'', ''SRC2''] [''Dbreg'', ''Sbreg'', ''baop''] ''indexed'' ''SUBTRACT BYTES.'' True False False False False),
     (0x5C, template ''MULUB'' 4 3 [''DEST'', ''SRC1'', ''SRC2''] [''wreg'', ''breg'', ''baop''] ''direct'' ''MULTIPLY BYTES, UNSIGNED.'' False False False False False),
     (0x5D, template ''MULUB'' 4 3 [''DEST'', ''SRC1'', ''SRC2''] [''wreg'', ''breg'', ''baop''] ''immediate'' ''MULTIPLY BYTES, UNSIGNED.'' False False False False False),
     (0x5E, template ''MULUB'' 4 3 [''DEST'', ''SRC1'', ''SRC2''] [''wreg'', ''breg'', ''baop''] ''indirect'' ''MULTIPLY BYTES, UNSIGNED.'' False False False False False),
     (0x5F, template ''MULUB'' 5 3 [''DEST'', ''SRC1'', ''SRC2''] [''wreg'', ''breg'', ''baop''] ''indexed'' ''MULTIPLY BYTES, UNSIGNED.'' True False False False False),
     (0x60, template ''AND'' 3 2 [''DEST'', ''SRC''] [''wreg'', ''waop''] ''direct'' ''LOGICAL AND WORDS.'' False False False False False),
     (0x61, template ''AND'' 4 2 [''DEST'', ''SRC''] [''wreg'', ''waop''] ''immediate'' ''LOGICAL AND WORDS.'' False False False False False),
     (0x62, template ''AND'' 3 2 [''DEST'', ''SRC''] [''wreg'', ''waop''] ''indirect'' ''LOGICAL AND WORDS.'' False False False False False),
     (0x63, template ''AND'' 4 2 [''DEST'', ''SRC''] [''wreg'', ''waop''] ''indexed'' ''LOGICAL AND WORDS.'' True False False False False),
     (0x64, template ''ADD'' 3 2 [''DEST'', ''SRC''] [''wreg'', ''waop''] ''direct'' ''ADD WORDS.'' False False False False False),
     (0x65, template ''ADD'' 4 2 [''DEST'', ''SRC''] [''wreg'', ''waop''] ''immediate'' ''ADD WORDS.'' False False False False False),
     (0x66, template ''ADD'' 3 2 [''DEST'', ''SRC''] [''wreg'', ''waop''] ''indirect'' ''ADD WORDS.'' False False False False False),
     (0x67, template ''ADD'' 4 2 [''DEST'', ''SRC''] [''wreg'', ''waop''] ''indexed'' ''ADD WORDS.'' True False False False False),
     (0x68, template ''SUB'' 3 2 [''DEST'', ''SRC''] [''wreg'', ''waop''] ''direct'' ''SUBTRACT WORDS.'' False False False False False),
     (0x69, template ''SUB'' 4 2 [''DEST'', ''SRC''] [''wreg'', ''waop''] ''immediate'' ''SUBTRACT WORDS.'' False False False False False),
     (0x6A, template ''SUB'' 3 2 [''DEST'', ''SRC''] [''wreg'', ''waop''] ''indirect'' ''SUBTRACT WORDS.'' False False False False False),
     (0x6B, template ''SUB'' 4 2 [''DEST'', ''SRC''] [''wreg'', ''waop''] ''indexed'' ''SUBTRACT WORDS.'' True False False False False),
     (0x6C, template ''MULU'' 3 2 [''DEST'', ''SRC''] [''lreg'', ''waop''] ''direct'' ''MULTIPLY WORDS, UNSIGNED.'' False False False False False),
     (0x6D, template ''MULU'' 4 2 [''DEST'', ''SRC''] [''lreg'', ''waop''] ''immediate'' ''MULTIPLY WORDS, UNSIGNED.'' False False False False False),
     (0x6E, template ''MULU'' 3 2 [''DEST'', ''SRC''] [''lreg'', ''waop''] ''indirect'' ''MULTIPLY WORDS, UNSIGNED.'' False False False False False),
     (0x6F, template ''MULU'' 4 2 [''DEST'', ''SRC''] [''lreg'', ''waop''] ''indexed'' ''MULTIPLY WORDS, UNSIGNED.'' True False False False False),
     (0x70, template ''ANDB'' 3 2 [''DEST'', ''SRC''] [''breg'', ''baop''] ''direct'' ''LOGICAL AND BYTES.'' False False False False False),
     (0x71, template ''ANDB'' 3 2 [''DEST'', ''SRC''] [''breg'', ''baop''] ''immediate'' ''LOGICAL AND BYTES.'' False False False False False),
     (0x72, template ''ANDB'' 3 2 [''DEST'', ''SRC''] [''breg'', ''baop''] ''indirect'' ''LOGICAL AND BYTES.'' False False False False False),
     (0x73, template ''ANDB'' 4 2 [''DEST'', ''SRC''] [''breg'', ''baop''] ''indexed'' ''LOGICAL AND BYTES.'' True False False False False),
     (0x74, template ''ADDB'' 3 2 [''DEST'', ''SRC''] [''breg'', ''baop''] ''direct'' ''ADD BYTES.'' False False False False False),
     (0x75, template ''ADDB'' 3 2 [''DEST'', ''SRC''] [''breg'', ''baop''] ''immediate'' ''ADD BYTES.'' False False False False False),
     (0x76, template ''ADDB'' 3 2 [''DEST'', ''SRC''] [''breg'', ''baop''] ''indirect'' ''ADD BYTES.'' False False False False False),
     (0x77, template ''ADDB'' 4 2 [''DEST'', ''SRC''] [''breg'', ''baop''] ''indexed'' ''ADD BYTES.'' True False False False False),
     (0x78, template ''SUBB'' 3 2 [''DEST'', ''SRC''] [''breg'', ''baop''] ''direct'' ''SUBTRACT BYTES.'' False False False False False),
     (0x79, template ''SUBB'' 3 2 [''DEST'', ''SRC''] [''breg'', ''baop''] ''immediate'' ''SUBTRACT BYTES.'' False False False False False),
     (0x7A, template ''SUBB'' 3 2 [''DEST'', ''SRC''] [''breg'', ''baop''] ''indirect'' ''SUBTRACT BYTES.'' False False False False False),
     (0x7B, template ''SUBB'' 4 2 [''DEST'', ''SRC''] [''breg'', ''baop''] ''indexed'' ''SUBTRACT BYTES.'' True False False False False),
     (0x7C, template ''MULUB'' 3 2 [''DEST'', ''SRC''] [''wreg'', ''baop''] ''direct'' ''MULTIPLY BYTES'' False False False False False),
     (0x7D, template ''MULUB'' 3 2 [''DEST'', ''SRC''] [''wreg'', ''baop''] ''immediate'' ''MULTIPLY BYTES'' False False False False False),
     (0x7E, template ''MULUB'' 3 2 [''DEST'', ''SRC''] [''wreg'', ''baop''] ''indirect'' ''MULTIPLY BYTES'' False False False False False),
     (0x7F, template ''MULUB'' 4 2 [''DEST'', ''SRC''] [''wreg'', ''baop''] ''indexed'' ''MULTIPLY BYTES'' True False False False False),
     (0x80, template ''OR'' 3 2 [''DEST'', ''SRC''] [''wreg'', ''waop''] ''direct'' ''LOGICAL OR WORDS.'' False False False False False),
     (0x81, template ''OR'' 4 2 [''DEST'', ''SRC''] [''wreg'', ''waop''] ''immediate'' ''LOGICAL OR WORDS.'' False False False False False),
     (0x82, template ''OR'' 3 2 [''DEST'', ''SRC''] [''wreg'', ''waop''] ''indirect'' ''LOGICAL OR WORDS.'' False False False False False),
     (0x83, template ''OR'' 4 2 [''DEST'', ''SRC''] [''wreg'', ''waop''] ''indexed'' ''LOGICAL OR WORDS.'' True False False False False),
     (0x84, template ''XOR'' 3 2 [''DEST'', ''SRC''] [''wreg'', ''waop''] ''direct'' ''LOGICAL EXCLUSIVE-OR WORDS'' False False False False False),
     (0x85, template ''XOR'' 4 2 [''DEST'', ''SRC''] [''wreg'', ''waop''] ''immediate'' ''LOGICAL EXCLUSIVE-OR WORDS'' False False False False False),
     (0x86, template ''XOR'' 3 2 [''DEST'', ''SRC''] [''wreg'', ''waop''] ''indirect'' ''LOGICAL EXCLUSIVE-OR WORDS'' False False False False False),
     (0x87, template ''XOR'' 4 2 [''DEST'', ''SRC''] [''wreg'', ''waop''] ''indexed'' ''LOGICAL EXCLUSIVE-OR WORDS'' True False False False False),
     (0x88, template ''CMP'' 3 2 [''DEST'', ''SRC''] [''wreg'', ''waop''] ''direct'' ''COMPARE WORDS.'' False False False False False),
     (0x89, template ''CMP'' 4 2 [''DEST'', ''SRC''] [''wreg'', ''waop''] ''immediate'' ''COMPARE WORDS.'' False False False False False),
     (0x8A, template ''CMP'' 3 2 [''DEST'', ''SRC''] [''wreg'', ''waop''] ''indirect'' ''COMPARE WORDS.'' False False False False False),
     (0x8B, template ''CMP'' 4 2 [''DEST'', ''SRC''] [''wreg'', ''waop''] ''indexed'' ''COMPARE WORDS.'' True False False False False),
     (0x8C, template ''DIVU'' 3 2 [''DEST'', ''SRC''] [''lreg'', ''waop''] ''direct'' ''DIVIDE WORDS, UNSIGNED.'' False False False False False),
     (0x8D, template ''DIVU'' 4 2 [''DEST'', ''SRC''] [''lreg'', ''waop''] ''immediate'' ''DIVIDE WORDS, UNSIGNED.'' False False False False False),
     (0x8E, template ''DIVU'' 3 2 [''DEST'', ''SRC''] [''lreg'', ''waop''] ''indirect'' ''DIVIDE WORDS, UNSIGNED.'' False False False False False),
     (0x8F, template ''DIVU'' 4 2 [''DEST'', ''SRC''] [''lreg'', ''waop''] ''indexed'' ''DIVIDE WORDS, UNSIGNED.'' True False False False False),
     (0x90, template ''ORB'' 3 2 [''DEST'', ''SRC''] [''breg'', ''baop''] ''direct'' ''LOGICAL OR BYTES.'' False False False False False),
     (0x91, template ''ORB'' 3 2 [''DEST'', ''SRC''] [''breg'', ''baop''] ''immediate'' ''LOGICAL OR BYTES.'' False False False False False),
     (0x92, template ''ORB'' 3 2 [''DEST'', ''SRC''] [''breg'', ''baop''] ''indirect'' ''LOGICAL OR BYTES.'' False False False False False),
     (0x93, template ''ORB'' 4 2 [''DEST'', ''SRC''] [''breg'', ''baop''] ''indexed'' ''LOGICAL OR BYTES.'' True False False False False),
     (0x94, template ''XORB'' 3 2 [''DEST'', ''SRC''] [''breg'', ''baop''] ''direct'' ''LOGICAL EXCLUSIVE-OR BYTES.'' False False False False False),
     (0x95, template ''XORB'' 3 2 [''DEST'', ''SRC''] [''breg'', ''baop''] ''immediate'' ''LOGICAL EXCLUSIVE-OR BYTES.'' False False False False False),
     (0x96, template ''XORB'' 3 2 [''DEST'', ''SRC''] [''breg'', ''baop''] ''indirect'' ''LOGICAL EXCLUSIVE-OR BYTES.'' False False False False False),
     (0x97, template ''XORB'' 4 2 [''DEST'', ''SRC''] [''breg'', ''baop''] ''indexed'' ''LOGICAL EXCLUSIVE-OR BYTES.'' True False False False False),
     (0x98, template ''CMPB'' 3 2 [''DEST'', ''SRC''] [''breg'', ''baop''] ''direct'' ''COMPARE BYTES.'' False False False False False),
     (0x99, template ''CMPB'' 3 2 [''DEST'', ''SRC''] [''breg'', ''baop''] ''immediate'' ''COMPARE BYTES.'' False False False False False),
     (0x9A, template ''CMPB'' 3 2 [''DEST'', ''SRC''] [''breg'', ''baop''] ''indirect'' ''COMPARE BYTES.'' False False False False False),
     (0x9B, template ''CMPB'' 4 2 [''DEST'', ''SRC''] [''breg'', ''baop''] ''indexed'' ''COMPARE BYTES.'' True False False False False),
     (0x9C, template ''DIVUB'' 3 2 [''DEST'', ''SRC''] [''wreg'', ''baop''] ''direct'' ''DIVIDE BYTES, UNSIGNED.'' False False False False False),
     (0x9D, template ''DIVUB'' 3 2 [''DEST'', ''SRC''] [''wreg'', ''baop''] ''immediate'' ''DIVIDE BYTES, UNSIGNED.'' False False False False False),
     (0x9E, template ''DIVUB'' 3 2 [''DEST'', ''SRC''] [''wreg'', ''baop''] ''indirect'' ''DIVIDE BYTES, UNSIGNED.'' False False False False False),
     (0x9F, template ''DIVUB'' 4 2 [''DEST'', ''SRC''] [''wreg'', ''baop''] ''indexed'' ''DIVIDE BYTES, UNSIGNED.'' True False False False False),
     (0xA0, template ''LD'' 3 2 [''DEST'', ''SRC''] [''wreg'', ''waop''] ''direct'' ''LOAD WORD.'' False False False False False),
     (0xA1, template ''LD'' 4 2 [''DEST'', ''SRC''] [''wreg'', ''waop''] ''immediate'' ''LOAD WORD.'' False False False False False),
     (0xA2, template ''LD'' 3 2 [''DEST'', ''SRC''] [''wreg'', ''waop''] ''indirect'' ''LOAD WORD.'' False False False False False),
     (0xA3, template ''LD'' 4 2 [''DEST'', ''SRC''] [''wreg'', ''waop''] ''indexed'' ''LOAD WORD.'' True False False False False),
     (0xA4, template ''ADDC'' 3 2 [''DEST'', ''SRC''] [''wreg'', ''waop''] ''direct'' ''ADD WORDS WITH CARRY.'' False False False False False),
     (0xA5, template ''ADDC'' 4 2 [''DEST'', ''SRC''] [''wreg'', ''waop''] ''immediate'' ''ADD WORDS WITH CARRY.'' False False False False False),
     (0xA6, template ''ADDC'' 3 2 [''DEST'', ''SRC''] [''wreg'', ''waop''] ''indirect'' ''ADD WORDS WITH CARRY.'' False False False False False),
     (0xA7, template ''ADDC'' 4 2 [''DEST'', ''SRC''] [''wreg'', ''waop''] ''indexed'' ''ADD WORDS WITH CARRY.'' True False False False False),
     (0xA8, template ''SUBC'' 3 2 [''DEST'', ''SRC''] [''wreg'', ''waop''] ''direct'' ''SUBTRACT WORDS WITH BORROW.'' False False False False False),
     (0xA9, template ''SUBC'' 4 2 [''DEST'', ''SRC''] [''wreg'', ''waop''] ''immediate'' ''SUBTRACT WORDS WITH BORROW.'' False False False False False),
     (0xAA, template ''SUBC'' 3 2 [''DEST'', ''SRC''] [''wreg'', ''waop''] ''indirect'' ''SUBTRACT WORDS WITH BORROW.'' False False False False False),
     (0xAB, template ''SUBC'' 4 2 [''DEST'', ''SRC''] [''wreg'', ''waop''] ''indexed'' ''SUBTRACT WORDS WITH BORROW.'' True False False False False),
     (0xAC, template ''LDBZE'' 3 2 [''DEST'', ''SRC''] [''wreg'', ''baop''] ''direct'' ''LOAD BYTE ZERO-EXTENDED.'' False False False False False),
     (0xAD, template ''LDBZE'' 3 2 [''DEST'', ''SRC''] [''wreg'', ''baop''] ''immediate'' ''LOAD BYTE ZERO-EXTENDED.'' False False False False False),
     (0xAE, template ''LDBZE'' 3 2 [''DEST'', ''SRC''] [''wreg'', ''baop''] ''indirect'' ''LOAD BYTE ZERO-EXTENDED.'' False False False False False),
     (0xAF, template ''LDBZE'' 4 2 [''DEST'', ''SRC''] [''wreg'', ''baop''] ''indexed'' ''LOAD BYTE ZERO-EXTENDED.'' True False False False False),
     (0xB0, template ''LDB'' 3 2 [''DEST'', ''SRC''] [''breg'', ''baop''] ''direct'' ''LOAD BYTE.'' False False False False False),
     (0xB1, template ''LDB'' 3 2 [''DEST'', ''SRC''] [''breg'', ''baop''] ''immediate'' ''LOAD BYTE.'' False False False False False),
     (0xB2, template ''LDB'' 3 2 [''DEST'', ''SRC''] [''breg'', ''baop''] ''indirect'' ''LOAD BYTE.'' False False False False False),
     (0xB3, template ''LDB'' 4 2 [''DEST'', ''SRC''] [''breg'', ''baop''] ''indexed'' ''LOAD BYTE.'' True False False False False),
     (0xB4, template ''ADDCB'' 3 2 [''DEST'', ''SRC''] [''breg'', ''baop''] ''direct'' ''ADD BYTES WITH CARRY.'' False False False False False),
     (0xB5, template ''ADDCB'' 3 2 [''DEST'', ''SRC''] [''breg'', ''baop''] ''immediate'' ''ADD BYTES WITH CARRY.'' False False False False False),
     (0xB6, template ''ADDCB'' 3 2 [''DEST'', ''SRC''] [''breg'', ''baop''] ''indirect'' ''ADD BYTES WITH CARRY.'' False False False False False),
     (0xB7, template ''ADDCB'' 4 2 [''DEST'', ''SRC''] [''breg'', ''baop''] ''indexed'' ''ADD BYTES WITH CARRY.'' True False False False False),
     (0xB8, template ''SUBCB'' 3 2 [''DEST'', ''SRC''] [''breg'', ''baop''] ''direct'' ''SUBTRACT BYTES WITH BORROW.'' False False False False False),
     (0xB9, template ''SUBCB'' 3 2 [''DEST'', ''SRC''] [''breg'', ''baop''] ''immediate'' ''SUBTRACT BYTES WITH BORROW.'' False False False False False),
     (0xBA, template ''SUBCB'' 3 2 [''DEST'', ''SRC''] [''breg'', ''baop''] ''indirect'' ''SUBTRACT BYTES WITH BORROW.'' False False False False False),
     (0xBB, template ''SUBCB'' 4 2 [''DEST'', ''SRC''] [''breg'', ''baop''] ''indexed'' ''SUBTRACT BYTES WITH BORROW.'' True False False False False),
     (0xBC, template ''LDBSE'' 3 2 [''DEST'', ''SRC''] [''wreg'', ''baop''] ''direct'' ''LOAD BYTE SIGN-EXTENDED.'' False False False False False),
     (0xBD, template ''LDBSE'' 3 2 [''DEST'', ''SRC''] [''wreg'', ''baop''] ''immediate'' ''LOAD BYTE SIGN-EXTENDED.'' False False False False False),
     (0xBE, template ''LDBSE'' 3 2 [''DEST'', ''SRC''] [''wreg'', ''baop''] ''indirect'' ''LOAD BYTE SIGN-EXTENDED.'' False False False False False),
     (0xBF, template ''LDBSE'' 4 2 [''DEST'', ''SRC''] [''wreg'', ''baop''] ''indexed'' ''LOAD BYTE SIGN-EXTENDED.'' True False False False False),
     (0xC0, template ''ST'' 3 2 [''SRC'', ''DEST''] [''wreg'', ''waop''] ''direct'' ''STORE WORD.'' False False False False False),
     (0xC1, template ''BMOV'' 3 2 [''PTRS'', ''CNTREG''] [''lreg'', ''wreg''] [] ''BLOCK MOVE.'' False False False False False),
     (0xC2, template ''ST'' 3 2 [''SRC'', ''DEST''] [''wreg'', ''waop''] ''indirect'' ''STORE WORD.'' False False False False False),
     (0xC3, template ''ST'' 4 2 [''SRC'', ''DEST''] [''wreg'', ''waop''] ''indexed'' ''STORE WORD.'' True False False False False),
     (0xC4, template ''STB'' 3 2 [''SRC'', ''DEST''] [''breg'', ''baop''] ''direct'' ''STORE BYTE.'' False False False False False),
     (0xC5, template ''CMPL'' 3 2 [''DEST'', ''SRC''] [''Dlreg'', ''Slreg''] ''direct'' ''COMPARE LONG.'' False False False False False),
     (0xC6, template ''STB'' 3 2 [''SRC'', ''DEST''] [''breg'', ''baop''] ''indirect'' ''STORE BYTE.'' False False False False False),
     (0xC7, template ''STB'' 4 2 [''SRC'', ''DEST''] [''breg'', ''baop''] ''indexed'' ''STORE BYTE.'' True False False False False),
     (0xC8, template ''PUSH'' 2 1 [''SRC''] [''waop''] ''direct'' ''PUSH WORD.'' False False False False False),
     (0xC9, template ''PUSH'' 3 1 [''SRC''] [''waop''] ''immediate'' ''PUSH WORD.'' False False False False False),
     (0xCA, template ''PUSH'' 2 1 [''SRC''] [''waop''] ''indirect'' ''PUSH WORD.'' False False False False False),
     (0xCB, template ''PUSH'' 3 1 [''SRC''] [''waop''] ''indexed'' ''PUSH WORD.'' True False False False False),
     (0xCC, template ''POP'' 2 1 [''DEST''] [''waop''] ''direct'' ''POP WORD.'' False False False False False),
     (0xCD, template ''BMOVI'' 3 2 [''PTRS'', ''CNTREG''] [''lreg'', ''wreg''] ''indirect'' ''INTERRUPTIBLE BLOCK MOVE.'' False False False False False),
     (0xCE, template ''POP'' 2 1 [''DEST''] [''waop''] ''indirect'' ''POP WORD.'' False False False False False),
     (0xCF, template ''POP'' 3 1 [''DEST''] [''waop''] ''indexed'' ''POP WORD.'' True False False False False),
     (0xD0, template ''JNST'' 2 1 [''ADDR''] [''cadd''] ''indexed'' ''JUMP IF STICKY BIT FLAG IS CLEAR.'' False False False False False),
     (0xD1, template ''JNH'' 2 1 [''ADDR''] [''cadd''] ''indexed'' ''JUMP IF NOT HIGHER (UNSIGNED).'' False False False False False),
     (0xD2, template ''JGT'' 2 1 [''ADDR''] [''cadd''] ''indexed'' ''JUMP IF SIGNED GREATER THAN.'' False False False False False),
     (0xD3, template ''JNC'' 2 1 [''ADDR''] [''cadd''] ''indexed'' ''JUMP IF CARRY FLAG IS CLEAR.'' False False False False False),
     (0xD4, template ''JNVT'' 2 1 [''ADDR''] [''cadd''] ''indexed'' ''JUMP IF OVERFLOW-TRAP FLAG IS CLEAR.'' False False False False False),
     (0xD5, template ''JNV'' 2 1 [''ADDR''] [''cadd''] ''indexed'' ''JUMP IF OVERFLOW FLAG IS CLEAR.'' False False False False False),
     (0xD6, template ''JGE'' 2 1 [''ADDR''] [''cadd''] ''indexed'' ''JUMP IF SIGNED GREATER THAN OR EQUAL.'' False False False False False),
     (0xD7, template ''JNE'' 2 1 [''ADDR''] [''cadd''] ''indexed'' ''JUMP IF NOT EQUAL.'' False False False False False),
     (0xD8, template ''JST'' 2 1 [''ADDR''] [''cadd''] ''indexed'' ''JUMP IF STICKY BIT FLAG IS SET.'' False False False False False),
     (0xD9, template ''JH'' 2 1 [''ADDR''] [''cadd''] ''indexed'' ''JUMP IF HIGHER (UNSIGNED).'' False False False False False),
     (0xDA, template ''JLE'' 2 1 [''ADDR''] [''cadd''] ''indexed'' ''JUMP IF SIGNED LESS THAN OR EQUAL.'' False False False False False),
     (0xDB, template ''JC'' 2 1 [''ADDR''] [''cadd''] ''indexed'' ''JUMP IF CARRY FLAG IS SET.'' False False False False False),
     (0xDC, template ''JVT'' 2 1 [''ADDR''] [''cadd''] ''indexed'' ''JUMP IF OVERFLOW-TRAP FLAG IS SET.'' False False False False False),
     (0xDD, template ''JV'' 2 1 [''ADDR''] [''cadd''] ''indexed'' ''JUMP IF OVERFLOW FLAG IS SET.'' False False False False False),
     (0xDE, template ''JLT'' 2 1 [''ADDR''] [''cadd''] ''indexed'' ''JUMP IF SIGNED LESS THAN.'' False False False False False),
     (0xDF, template ''JE'' 2 1 [''ADDR''] [''cadd''] ''indexed'' ''JUMP IF EQUAL.'' False False False False False),
     (0xE0, template ''DJNZ'' 3 1 [''BREG'', ''ADDR''] [''breg'', ''cadd''] ''indexed'' ''DECREMENT AND JUMP IF NOT ZERO.'' False False False False False),
     (0xE1, template ''DJNZW'' 3 1 [''WREG'', ''ADDR''] [''wreg'', ''cadd''] ''indexed'' ''DECREMENT AND JUMP IF NOT ZERO WORD.'' False False False False False),
     (0xE2, template ''TIJMP'' 4 3 [''TBASE'', ''INDEX'', ''#MASK''] [''TBASE'', ''INDEX'', ''#MASK''] ''indexed'' ''TABLE INDIRECT JUMP.'' False False False False False),
     (0xE3, template ''EBR'' 2 1 [''ADDR''] [''cadd''] ''extended-indirect'' ''EXTENDED BRANCH INDIRECT.'' False False False False False),
     (0xE4, template ''EBMOVI'' 3 2 [''PTRS'', ''CNTREG''] [''prt2_reg'', ''wreg''] ''extended-indirect'' ''EXTENDED INTERRUPTIBLE BLOCK MOVE.'' False False False False False),
     (0xE5, template ''Reserved'' 1 0 [] [] [] [] False False False False True),
     (0xE6, template ''EJMP'' 4 1 [''ADDR''] [''cadd''] ''extended-indexed'' ''EXTENDED JUMP.'' False False False False False),
     (0xE7, template ''LJMP'' 3 1 [''ADDR''] [''cadd''] ''long-indexed'' ''LONG JUMP.'' False False False False False),
     (0xE8, template ''ELD'' 3 2 [''DEST'', ''SRC''] [''wreg'', ''treg''] ''extended-indirect'' ''EXTENDED LOAD WORD.'' False False False False False),
     (0xE9, template ''ELD'' 6 2 [''DEST'', ''SRC''] [''wreg'', ''treg''] ''extended-indexed'' ''EXTENDED LOAD WORD.'' False False False False False),
     (0xEA, template ''ELDB'' 3 2 [''DEST'', ''SRC''] [''breg'', ''treg''] ''extended-indirect'' ''EXTENDED LOAD BYTE.'' False False False False False),
     (0xEB, template ''ELDB'' 6 2 [''DEST'', ''SRC''] [''breg'', ''treg''] ''extended-indexed'' ''EXTENDED LOAD BYTE.'' False False False False False),
     (0xEC, template ''DPTS'' 1 0 [] [] ''direct'' ''DISABLE PERIPHERAL TRANSACTION SERVER (PTS).'' False False False False False),
     (0xED, template ''EPTS'' 1 0 [] [] ''direct'' ''ENABLE PERIPHERAL TRANSACTION SERVER (PTS).'' False False False False False),
     (0xEE, template ''Reserved'' 1 0 [] [] [] [] False False False False True),
     (0xEF, template ''LCALL'' 3 1 [''ADDR''] [''cadd''] ''long-indexed'' ''LONG CALL.'' False False False False False),
     (0xF0, template ''RET'' 1 0 [] [] ''indirect'' ''RETURN FROM SUBROUTINE.'' False False False False False),
     (0xF1, template ''ECALL'' 4 1 [''ADDR''] [''cadd''] ''extended-indexed'' ''EXTENDED CALL.'' False False False False False),
     (0xF2, template ''PUSHF'' 1 0 [] [] ''direct'' ''PUSH FLAGS.'' False False False False False),
     (0xF3, template ''POPF'' 1 0 [] [] ''direct'' ''POP FLAGS.'' False False False False False),
     (0xF4, template ''PUSHA'' 1 0 [] [] ''direct'' ''PUSH ALL.'' False False False False False),
     (0xF5, template ''POPA'' 1 0 [] [] ''direct'' ''POP ALL.'' False False False False False),
     (0xF6, template ''IDLPD'' 1 0 [] [] ''immediate'' ''IDLE/POWERDOWN.'' False False False False False),
     (0xF7, template ''TRAP'' 1 0 [] [] ''direct'' ''SOFTWARE TRAP.'' False False False False False),
     (0xF8, template ''CLRC'' 1 0 [] [] ''direct'' ''CLEAR CARRY FLAG.'' False False False False False),
     (0xF9, template ''SETC'' 1 0 [] [] ''direct'' ''SET CARRY FLAG.'' False False False False False),
     (0xFA, template ''DI'' 1 0 [] [] ''direct'' ''DISABLE INTERRUPTS.'' False False False False False),
     (0xFB, template ''EI'' 1 0 [] [] ''direct'' ''ENABLE INTERRUPTS.'' False False False False False),
     (0xFC, template ''CLRVT'' 1 0 [] [] ''direct'' ''CLEAR OVERFLOW-TRAP FLAG.'' False False False False False),
     (0xFD, template ''NOP'' 1 0 [] [] ''direct'' ''NO OPERATION.'' False False False False False),
     (0xFE, template ''(Note 2) Prefix for signed multiplication and division.'' 1 0 [] [] [] [] False False True False False),
     (0xFF, template ''RST'' 1 0 [] [] ''direct'' ''RESET SYSTEM.'' False False False False False)]"


definition unsignedInstructions :: "byte \<rightharpoonup> Instruction" where
  "unsignedInstructions = map_of unsignedTable"

text \<open>\<^verbatim>\<open>signedInstructions\<close>: the opcodes that may follow the prefix \<open>0xFE\<close>.\<close>

definition signedTable :: "(byte \<times> Instruction) list" where
  "signedTable = [
     (0x1C, template ''MYSTERY'' 4 3 [''DEST'', ''SRC1'', ''SRC2''] [''lreg'', ''wreg'', ''waop''] ''indirect'' ''MYSTERY.'' False False False False False),
     (0x4C, template ''MUL'' 4 3 [''DEST'', ''SRC1'', ''SRC2''] [''lreg'', ''wreg'', ''waop''] ''direct'' ''MULTIPLY INTEGERS.'' False False False False False),
     (0x4D, template ''MUL'' 5 3 [''DEST'', ''SRC1'', ''SRC2''] [''lreg'', ''wreg'', ''waop''] ''immediate'' ''MULTIPLY INTEGERS.'' False False False False False),
     (0x4E, template ''MUL'' 4 3 [''DEST'', ''SRC1'', ''SRC2''] [''lreg'', ''wreg'', ''waop''] ''indirect'' ''MULTIPLY INTEGERS.'' False False False False False),
     (0x4F, template ''MUL'' 5 3 [''DEST'', ''SRC1'', ''SRC2''] [''lreg'', ''wreg'', ''waop''] ''indexed'' ''MULTIPLY INTEGERS.'' True False False False False),
     (0x5C, template ''MULB'' 4 3 [''DEST'', ''SRC1'', ''SRC2''] [''wreg'', ''breg'', ''baop''] ''direct'' ''MULTIPLY SHORT-INTEGERS.'' False False False False False),
     (0x5D, template ''MULB'' 4 3 [''DEST'', ''SRC1'', ''SRC2''] [''wreg'', ''breg'', ''baop''] ''immediate'' ''MULTIPLY SHORT-INTEGERS.'' False False False False False),
     (0x5E, template ''MULB'' 4 3 [''DEST'', ''SRC1'', ''SRC2''] [''wreg'', ''breg'', ''baop''] ''indirect'' ''MULTIPLY SHORT-INTEGERS.'' False False False False False),
     (0x5F, template ''MULB'' 5 3 [''DEST'', ''SRC1'', ''SRC2''] [''wreg'', ''breg'', ''baop''] ''indexed'' ''MULTIPLY SHORT-INTEGERS.'' True False False False False),
     (0x6C, template ''MUL'' 3 2 [''DEST'', ''SRC''] [''lreg'', ''waop''] ''direct'' ''MULTIPLY INTEGERS.'' False False False False False),
     (0x6D, template ''MUL'' 4 2 [''DEST'', ''SRC''] [''lreg'', ''waop''] ''immediate'' ''MULTIPLY INTEGERS.'' False False False False False),
     (0x6E, template ''MUL'' 3 2 [''DEST'', ''SRC''] [''lreg'', ''waop''] ''indirect'' ''MULTIPLY INTEGERS.'' False False False False False),
     (0x6F, template ''MUL'' 4 2 [''DEST'', ''SRC''] [''lreg'', ''waop''] ''indexed'' ''MULTIPLY INTEGERS.'' True False False False False),
     (0x7C, template ''MULB'' 3 2 [''DEST'', ''SRC''] [''wreg'', ''baop''] ''direct'' ''MULTIPLY SHORT-INTEGERS.'' False False False False False),
     (0x7D, template ''MULB'' 3 2 [''DEST'', ''SRC''] [''wreg'', ''baop''] ''immediate'' ''MULTIPLY SHORT-INTEGERS.'' False False False False False),
     (0x7E, template ''MULB'' 3 2 [''DEST'', ''SRC''] [''wreg'', ''baop''] ''indirect'' ''MULTIPLY SHORT-INTEGERS.'' False False False False False),
     (0x7F, template ''MULB'' 4 2 [''DEST'', ''SRC''] [''wreg'', ''baop''] ''indexed'' ''MULTIPLY SHORT-INTEGERS.'' True False False False False),
     (0x8C, template ''DIV'' 3 2 [''DEST'', ''SRC''] [''lreg'', ''waop''] ''direct'' ''DIVIDE INTEGERS.'' False False False False False),
     (0x8D, template ''DIV'' 4 2 [''DEST'', ''SRC''] [''lreg'', ''waop''] ''immediate'' ''DIVIDE INTEGERS.'' False False False False False),
     (0x8E, template ''DIV'' 3 2 [''DEST'', ''SRC''] [''lreg'', ''waop''] ''indirect'' ''DIVIDE INTEGERS.'' False False False False False),
     (0x8F, template ''DIV'' 4 2 [''DEST'', ''SRC''] [''lreg'', ''waop''] ''indexed'' ''DIVIDE INTEGERS.'' True False False False False),
     (0x9C, template ''DIVB'' 3 2 [''DEST'', ''SRC''] [''wreg'', ''baop''] ''direct'' ''DIVIDE SHORT-INTEGERS.'' False False False False False),
     (0x9D, template ''DIVB'' 3 2 [''DEST'', ''SRC''] [''wreg'', ''baop''] ''immediate'' ''DIVIDE SHORT-INTEGERS.'' False False False False False),
     (0x9E, template ''DIVB'' 3 2 [''DEST'', ''SRC''] [''wreg'', ''baop''] ''indirect'' ''DIVIDE SHORT-INTEGERS.'' False False False False False),
     (0x9F, template ''DIVB'' 4 2 [''DEST'', ''SRC''] [''wreg'', ''baop''] ''indexed'' ''DIVIDE SHORT-INTEGERS.'' True False False False False)]"


definition signedInstructions :: "byte \<rightharpoonup> Instruction" where
  "signedInstructions = map_of signedTable"

subsection \<open>The decoder entry point\<close>

text \<open>
  The chain of tests of \<^verbatim>\<open>Parse\<close> on the opcode byte that selects the resolver; the
  synthesizer runs after whichever resolver was chosen.
\<close>

definition dispatch :: "regNameFn \<Rightarrow> byte \<Rightarrow> Instruction \<Rightarrow> Instruction option" where
  "dispatch regName firstByte instruction =
     (if firstByte AND 0xf8 = 0x20 then doSJMP instruction
      else if firstByte AND 0xf8 = 0x28 then doSCALL instruction
      else if firstByte AND 0xf8 = 0x30 then doJBC regName instruction
      else if firstByte AND 0xf8 = 0x38 then doJBS regName instruction
      else if firstByte AND 0xf0 = 0xd0 then doCONDJMP instruction
      else if firstByte AND 0xf0 = 0xf0 then doF0 instruction
      else if firstByte AND 0xf0 = 0xe0 then doE0 regName instruction
      else if firstByte AND 0xf0 = 0xc0 then doC0 regName instruction
      else if firstByte AND 0xe0 = 0 then do00 regName instruction
      else doMIDDLE regName instruction)"

text \<open>
  \<^verbatim>\<open>Parse(in, address)\<close>. The slice \<^verbatim>\<open>in\<close> is given by its visible bytes \<open>inp\<close> and the
  bytes \<open>spare\<close> up to its capacity. The result is \<open>None\<close> when the Go code panics,
  and otherwise the returned pair of the instruction and the error (\<open>None\<close> for
  \<^verbatim>\<open>nil\<close>, else the message of the error).
\<close>

definition Parse ::
  "regNameFn \<Rightarrow> byte list \<Rightarrow> byte list \<Rightarrow> int \<Rightarrow> (Instruction \<times> string option) option" where
  "Parse regName inp spare address = do {
     firstByte \<leftarrow> index inp 0;
     (isSigned, firstByte, instructions) \<leftarrow>
       (if firstByte = 0xFE then do {
          in1 \<leftarrow> index inp 1;
          Some (True, in1, signedInstructions)
        } else Some (False, firstByte, unsignedInstructions));
     (case instructions firstByte of
        Some instruction \<Rightarrow> do {
          let instruction = instruction\<lparr>Op := firstByte, Signed := isSigned, Address := address\<rparr>;
          instruction \<leftarrow>
            (if AddressingMode instruction = ''indexed'' \<and> VariableLength instruction = True then do {
               in1 \<leftarrow> index inp 1;
               Some (if in1 AND 1 = 1
                     then instruction\<lparr>ByteLength := ByteLength instruction + 1,
                                        AddressingMode := ''long-indexed''\<rparr>
                     else instruction\<lparr>AddressingMode := ''short-indexed''\<rparr>)
             } else Some instruction);
          instruction \<leftarrow>
            (if AddressingMode instruction = ''indirect'' then do {
               in1 \<leftarrow> index inp 1;
               Some (if in1 AND 1 = 1
                     then instruction\<lparr>AddressingMode := ''indirect+'', AutoIncrement := True\<rparr>
                     else instruction)
             } else Some instruction);
          instruction \<leftarrow>
            (if isSigned then do {
               let instruction = instruction\<lparr>ByteLength := ByteLength instruction + 1,
                                               Signed := isSigned,
                                               Mnemonic := ''SGN '' @ Mnemonic instruction\<rparr>;
               rawOps \<leftarrow> slice inp spare 2 (ByteLength instruction);
               Some (instruction\<lparr>RawOps := rawOps\<rparr>)
             } else do {
               rawOps \<leftarrow> slice inp spare 1 (ByteLength instruction);
               Some (instruction\<lparr>RawOps := rawOps\<rparr>)
             });
          raw \<leftarrow> slice inp spare 0 (ByteLength instruction);
          let instruction = instruction\<lparr>Raw := raw\<rparr>;
          instruction \<leftarrow>
            (if VarCount instruction > 0 then do {
               resolved \<leftarrow> dispatch regName firstByte instruction;
               Some (doPseudo resolved)
             } else Some (instruction\<lparr>Checked := True\<rparr>));
          Some (instruction, None)
        }
      | None \<Rightarrow> Some (zeroInstruction\<lparr>ByteLength := 1\<rparr>, Some ''Unable to find instruction!''))
   }"

subsection \<open>Notions used in the statements and proofs\<close>

text \<open>
  The part of an instruction that no resolver except the \<^verbatim>\<open>BR\<close> rewrite changes: the
  edge maps, the operand map, the pseudocode and \<^verbatim>\<open>Checked\<close> are blanked.
\<close>

definition core :: "Instruction \<Rightarrow> Instruction" where
  "core i = i\<lparr>XRefs := None, Calls := None, Jumps := None, Vars := Map.empty,
              PseudoCode := [], Checked := False\<rparr>"

text \<open>
  The first steps of \<^verbatim>\<open>Parse\<close>: the prefix test and the table lookup give the signed
  flag, the opcode byte and the template, if the table has one.
\<close>

definition lookupOp :: "byte list \<Rightarrow> (bool \<times> byte \<times> Instruction option) option" where
  "lookupOp inp = do {
     firstByte \<leftarrow> index inp 0;
     (if firstByte = 0xFE then do {
        in1 \<leftarrow> index inp 1;
        Some (True, in1, signedInstructions in1)
      } else Some (False, firstByte, unsignedInstructions firstByte))
   }"

text \<open>The templates for which \<^verbatim>\<open>Parse\<close> reads \<^verbatim>\<open>in[1]\<close> to settle the addressing mode.\<close>

definition needsSecond :: "Instruction \<Rightarrow> bool" where
  "needsSecond t =
     ((AddressingMode t = ''indexed'' \<and> VariableLength t) \<or> AddressingMode t = ''indirect'')"

text \<open>
  The instruction after the addressing-mode and signed adjustments of \<^verbatim>\<open>Parse\<close>, where
  \<open>bit0\<close> says whether bit 0 of \<^verbatim>\<open>in[1]\<close> is set.
\<close>

definition adjusted :: "bool \<Rightarrow> bool \<Rightarrow> Instruction \<Rightarrow> Instruction" where
  "adjusted isSigned bit0 t =
     (let i = (if AddressingMode t = ''indexed'' \<and> VariableLength t
               then (if bit0 then t\<lparr>ByteLength := ByteLength t + 1, AddressingMode := ''long-indexed''\<rparr>
                     else t\<lparr>AddressingMode := ''short-indexed''\<rparr>)
               else t);
          i = (if AddressingMode i = ''indirect'' \<and> bit0
               then i\<lparr>AddressingMode := ''indirect+'', AutoIncrement := True\<rparr> else i)
      in if isSigned
         then i\<lparr>ByteLength := ByteLength i + 1, Mnemonic := ''SGN '' @ Mnemonic i\<rparr>
         else i)"

text \<open>
  The byte length \<^verbatim>\<open>Parse\<close> has computed when it slices its input (1 on a table miss);
  \<open>None\<close> when a read of \<^verbatim>\<open>in[0]\<close> or \<^verbatim>\<open>in[1]\<close> before that point panics.
\<close>

definition secondOdd :: "byte list \<Rightarrow> Instruction \<Rightarrow> bool option" where
  "secondOdd inp t =
     (if needsSecond t then map_option (\<lambda>in1. in1 AND 1 = 1) (index inp 1) else Some False)"

definition computedByteLength :: "byte list \<Rightarrow> int option" where
  "computedByteLength inp = do {
     (isSigned, firstByte, found) \<leftarrow> lookupOp inp;
     (case found of
        None \<Rightarrow> Some 1
      | Some t \<Rightarrow> do {
          bit0 \<leftarrow> secondOdd inp t;
          Some (ByteLength (adjusted isSigned bit0 t))
        })
   }"

text \<open>
  Whether the resolver that \<^verbatim>\<open>Parse\<close> dispatches to has a case for the opcode and the
  addressing mode: the branch resolvers have a single body, \<^verbatim>\<open>doE0\<close> switches on the
  opcode (and on the mode for \<open>0xE8\<close> to \<open>0xEB\<close>), \<^verbatim>\<open>doC0\<close>, \<^verbatim>\<open>do00\<close> and \<^verbatim>\<open>doMIDDLE\<close>
  on the mode.
\<close>

definition modeCases :: "string list" where
  "modeCases = [''direct'', ''immediate'', ''indirect'', ''indirect+'', ''indexed'',
                ''short-indexed'', ''long-indexed'']"

definition extendedCases :: "string list" where
  "extendedCases = [''extended-indexed'', ''extended-indirect'']"

definition handles :: "byte \<Rightarrow> string \<Rightarrow> bool" where
  "handles op mode =
     (if op AND 0xf8 = 0x20 \<or> op AND 0xf8 = 0x28 \<or> op AND 0xf8 = 0x30 \<or> op AND 0xf8 = 0x38
         \<or> op AND 0xf0 = 0xd0 \<or> op AND 0xf0 = 0xf0 then True
      else if op AND 0xf0 = 0xe0 then
        (op \<in> set [0xE0, 0xE1, 0xE6, 0xE3, 0xE7, 0xEF]
         \<or> (op \<in> set [0xEA, 0xEB, 0xE8, 0xE9] \<and> mode \<in> set extendedCases))
      else if op AND 0xf0 = 0xc0 then (op = 0xC1 \<or> op = 0xC5 \<or> mode \<in> set modeCases)
      else if op AND 0xe0 = 0 then (if op = 0x1F \<or> op = 0x1D then mode \<in> set extendedCases else True)
      else mode \<in> set modeCases)"

text \<open>
  A sufficient condition for the dispatched resolver not to index out of range, on the
  opcode, the addressing mode, \<^verbatim>\<open>VarCount\<close> and the lengths of \<^verbatim>\<open>VarStrings\<close>,
  \<^verbatim>\<open>VarTypes\<close> and \<^verbatim>\<open>RawOps\<close>.
\<close>

definition readyN :: "byte \<Rightarrow> string \<Rightarrow> int \<Rightarrow> int \<Rightarrow> int \<Rightarrow> int \<Rightarrow> bool" where
  "readyN op m vc vs vt n =
     (let walk = (vs \<le> n \<and> vs \<le> vt);
          extended = (if m = ''extended-indexed'' then 5 \<le> n \<and> 2 \<le> vt \<and> 1 \<le> vs
                      else if m = ''extended-indirect'' then 2 \<le> n \<and> 2 \<le> vt \<and> 1 \<le> vs
                      else True);
          shortIdx = (walk \<and> vc + 1 \<le> n);
          longIdx = (walk \<and> vc + 2 \<le> n)
      in if op AND 0xf8 = 0x20 \<or> op AND 0xf8 = 0x28 then 1 \<le> n \<and> 1 \<le> vt
         else if op AND 0xf8 = 0x30 \<or> op AND 0xf8 = 0x38 then 2 \<le> n \<and> 3 \<le> vt
         else if op AND 0xf0 = 0xd0 then 1 \<le> n \<and> 1 \<le> vt
         else if op AND 0xf0 = 0xf0 then 3 \<le> n \<and> 1 \<le> vt
         else if op AND 0xf0 = 0xe0 then
           (if op = 0xE0 \<or> op = 0xE1 then 2 \<le> n \<and> 2 \<le> vt
            else if op = 0xEA \<or> op = 0xEB \<or> op = 0xE8 \<or> op = 0xE9 then extended
            else if op = 0xE6 then 3 \<le> n \<and> 1 \<le> vt
            else if op = 0xE3 then 1 \<le> n \<and> 1 \<le> vt \<and> 1 \<le> vs
            else if op = 0xE7 \<or> op = 0xEF then 2 \<le> n \<and> 1 \<le> vt
            else True)
         else if op AND 0xf0 = 0xc0 then
           (if op = 0xC1 \<or> op = 0xC5 \<or> m = ''direct'' then walk
            else if m = ''immediate'' then vs = 0 \<or> (2 \<le> n \<and> vs \<le> vt)
            else if m = ''indirect'' \<or> m = ''indirect+'' then walk
            else if m = ''indexed'' \<or> m = ''short-indexed'' then shortIdx
            else if m = ''long-indexed'' then longIdx
            else True)
         else if op AND 0xe0 = 0 then
           (if op = 0x1F \<or> op = 0x1D then extended else walk)
         else
           (if m = ''direct'' \<or> m = ''immediate'' \<or> m = ''indirect'' \<or> m = ''indirect+'' then walk
            else if m = ''indexed'' \<or> m = ''short-indexed'' then shortIdx
            else if m = ''long-indexed'' then longIdx
            else True))"

definition ready :: "Instruction \<Rightarrow> bool" where
  "ready i = readyN (Op i) (AddressingMode i) (VarCount i) (int (length (VarStrings i)))
               (int (length (VarTypes i))) (int (length (RawOps i)))"

text \<open>
  What the tables are checked for, entry by entry: the template is as the literal
  leaves it (no edge map, not checked), its length is positive, and for either value
  of bit 0 of \<^verbatim>\<open>in[1]\<close> the adjusted instruction with its operand bytes is ready for
  its resolver and, in the \<open>0xC0\<close> group, has a case there.
\<close>

definition entryOk :: "bool \<Rightarrow> byte \<times> Instruction \<Rightarrow> bool" where
  "entryOk isSigned e =
     (case e of (op, t) \<Rightarrow>
        Option.is_none (XRefs t) \<and> Option.is_none (Calls t) \<and> Option.is_none (Jumps t)
        \<and> \<not> Checked t \<and> 1 \<le> ByteLength t \<and> 0 \<le> VarCount t
        \<and> (isSigned \<longrightarrow> 2 \<le> ByteLength t)
        \<and> (ByteLength t = 1 \<longrightarrow> VarCount t = 0)
        \<and> list_all (\<lambda>bit0.
              let i = adjusted isSigned bit0 t;
                  n = ByteLength i - (if isSigned then 2 else 1)
              in 0 < VarCount t \<longrightarrow>
                   readyN op (AddressingMode i) (VarCount i) (int (length (VarStrings i)))
                     (int (length (VarTypes i))) n
                   \<and> (op AND 0xf0 = 0xc0 \<longrightarrow> handles op (AddressingMode i)))
            [False, True])"

section \<open>Properties\<close>

subsection \<open>Supporting lemmas: primitives and recorders\<close>

lemma replicate_numeral: "replicate (numeral k) x = x # replicate (pred_numeral k) x"
  by (simp add: numeral_eq_Suc)

lemmas fmt_defs = Sprintf_def fmtInteger_def digits_def digitChar_def isDigit_def digitVal_def
  extraArgs_def replicate_numeral

lemma index_ok: "0 \<le> i \<Longrightarrow> i < int (length xs) \<Longrightarrow> index xs i = Some (xs ! nat i)"
  by (simp add: index_def)

lemma index_SomeD: "index xs i = Some x \<Longrightarrow> 0 \<le> i \<and> i < int (length xs)"
  by (simp add: index_def split: if_splits)

lemma XRef_fields [simp]:
  "Op (XRef s v i) = Op i" "Address (XRef s v i) = Address i" "Raw (XRef s v i) = Raw i"
  "RawOps (XRef s v i) = RawOps i" "Mnemonic (XRef s v i) = Mnemonic i"
  "ByteLength (XRef s v i) = ByteLength i" "VarCount (XRef s v i) = VarCount i"
  "VarStrings (XRef s v i) = VarStrings i" "VarTypes (XRef s v i) = VarTypes i"
  "AddressingMode (XRef s v i) = AddressingMode i" "AutoIncrement (XRef s v i) = AutoIncrement i"
  "Checked (XRef s v i) = Checked i" "Calls (XRef s v i) = Calls i" "Jumps (XRef s v i) = Jumps i"
  "Vars (XRef s v i) = Vars i" "Signed (XRef s v i) = Signed i"
  by (simp_all add: XRef_def Let_def split: option.split)

lemma Call_fields [simp]:
  "Op (Call s v i) = Op i" "Address (Call s v i) = Address i" "Raw (Call s v i) = Raw i"
  "RawOps (Call s v i) = RawOps i" "Mnemonic (Call s v i) = Mnemonic i"
  "ByteLength (Call s v i) = ByteLength i" "VarCount (Call s v i) = VarCount i"
  "VarStrings (Call s v i) = VarStrings i" "VarTypes (Call s v i) = VarTypes i"
  "AddressingMode (Call s v i) = AddressingMode i" "AutoIncrement (Call s v i) = AutoIncrement i"
  "Checked (Call s v i) = Checked i" "XRefs (Call s v i) = XRefs i" "Jumps (Call s v i) = Jumps i"
  "Vars (Call s v i) = Vars i" "Signed (Call s v i) = Signed i"
  by (simp_all add: Call_def Let_def)

lemma Jump_fields [simp]:
  "Op (Jump s v i) = Op i" "Address (Jump s v i) = Address i" "Raw (Jump s v i) = Raw i"
  "RawOps (Jump s v i) = RawOps i" "Mnemonic (Jump s v i) = Mnemonic i"
  "ByteLength (Jump s v i) = ByteLength i" "VarCount (Jump s v i) = VarCount i"
  "VarStrings (Jump s v i) = VarStrings i" "VarTypes (Jump s v i) = VarTypes i"
  "AddressingMode (Jump s v i) = AddressingMode i" "AutoIncrement (Jump s v i) = AutoIncrement i"
  "Checked (Jump s v i) = Checked i" "XRefs (Jump s v i) = XRefs i" "Calls (Jump s v i) = Calls i"
  "Vars (Jump s v i) = Vars i" "Signed (Jump s v i) = Signed i"
  by (simp_all add: Jump_def Let_def)

lemma core_recorders [simp]:
  "core (XRef s v i) = core i" "core (Call s v i) = core i" "core (Jump s v i) = core i"
  by (simp_all add: core_def XRef_def Call_def Jump_def Let_def split: option.split)

lemma core_updates [simp]:
  "core (i\<lparr>Checked := c\<rparr>) = core i" "core (i\<lparr>Vars := vs\<rparr>) = core i"
  "core (i\<lparr>PseudoCode := p\<rparr>) = core i"
  by (simp_all add: core_def)

lemma core_eqD:
  assumes "core i' = core i"
  shows "Op i' = Op i" "Address i' = Address i" "Raw i' = Raw i" "RawOps i' = RawOps i"
    "Mnemonic i' = Mnemonic i" "ByteLength i' = ByteLength i" "VarCount i' = VarCount i"
    "VarStrings i' = VarStrings i" "VarTypes i' = VarTypes i"
    "AddressingMode i' = AddressingMode i" "AutoIncrement i' = AutoIncrement i"
    "Signed i' = Signed i" "Description i' = Description i"
proof -
  have "Op (core i') = Op (core i)" "Address (core i') = Address (core i)"
    "Raw (core i') = Raw (core i)" "RawOps (core i') = RawOps (core i)"
    "Mnemonic (core i') = Mnemonic (core i)" "ByteLength (core i') = ByteLength (core i)"
    "VarCount (core i') = VarCount (core i)" "VarStrings (core i') = VarStrings (core i)"
    "VarTypes (core i') = VarTypes (core i)" "AddressingMode (core i') = AddressingMode (core i)"
    "AutoIncrement (core i') = AutoIncrement (core i)" "Signed (core i') = Signed (core i)"
    "Description (core i') = Description (core i)"
    using assms by simp_all
  then show "Op i' = Op i" "Address i' = Address i" "Raw i' = Raw i" "RawOps i' = RawOps i"
    "Mnemonic i' = Mnemonic i" "ByteLength i' = ByteLength i" "VarCount i' = VarCount i"
    "VarStrings i' = VarStrings i" "VarTypes i' = VarTypes i"
    "AddressingMode i' = AddressingMode i" "AutoIncrement i' = AutoIncrement i"
    "Signed i' = Signed i" "Description i' = Description i"
    by (simp_all add: core_def)
qed

subsection \<open>Supporting lemmas: the operand loops\<close>

text \<open>Every loop leaves the core of the instruction as it is.\<close>

lemma c0Direct_frame:
  "c0Direct rn vs i b vars instr = Some r \<Longrightarrow>
     core (snd r) = core instr \<and> (Checked instr \<longrightarrow> Checked (snd r))"
  by (induction vs arbitrary: i b vars instr r) (auto simp: Let_def split: bind_splits)

lemma c0Immediate_frame:
  "c0Immediate rn vs i vars instr = Some r \<Longrightarrow>
     core (snd r) = core instr \<and> Checked (snd r) = Checked instr"
  by (induction vs arbitrary: i vars instr r) (auto simp: Let_def split: bind_splits)

lemma c0Indirect_frame:
  "c0Indirect rn vs i b vars instr = Some r \<Longrightarrow>
     core (snd r) = core instr \<and> Checked (snd r) = Checked instr"
  by (induction vs arbitrary: i b vars instr r) (auto simp: Let_def split: bind_splits if_splits)

lemma c0ShortIndexed_frame:
  "c0ShortIndexed rn vs i b vars instr = Some r \<Longrightarrow>
     core (snd r) = core instr \<and> Checked (snd r) = Checked instr"
  by (induction vs arbitrary: i b vars instr r) (auto simp: Let_def split: bind_splits if_splits)

lemma longIndexed_frame:
  "longIndexed rn vs i b vars instr = Some r \<Longrightarrow>
     core (snd r) = core instr \<and> Checked (snd r) = Checked instr"
  by (induction vs arbitrary: i b vars instr r) (auto simp: Let_def split: bind_splits if_splits)

lemma lowLoop_frame:
  "lowLoop rn vs i b vars instr = Some r \<Longrightarrow>
     core (snd r) = core instr \<and> Checked (snd r) = Checked instr"
  by (induction vs arbitrary: i b vars instr r) (auto simp: Let_def split: bind_splits if_splits)

lemma middleDirect_frame:
  "middleDirect rn vs i b vars instr = Some r \<Longrightarrow>
     core (snd r) = core instr \<and> Checked (snd r) = Checked instr"
  by (induction vs arbitrary: i b vars instr r) (auto simp: Let_def split: bind_splits)

lemma middleImmByte_frame:
  "middleImmByte rn vs i b vars instr = Some r \<Longrightarrow>
     core (snd r) = core instr \<and> Checked (snd r) = Checked instr"
  by (induction vs arbitrary: i b vars instr r) (auto simp: Let_def split: bind_splits if_splits)

lemma middleImmWord_frame:
  "middleImmWord rn vs i b vars instr = Some r \<Longrightarrow>
     core (snd r) = core instr \<and> Checked (snd r) = Checked instr"
  by (induction vs arbitrary: i b vars instr r) (auto simp: Let_def split: bind_splits if_splits)

lemma middleIndirect_frame:
  "middleIndirect rn vs i b vars instr = Some r \<Longrightarrow>
     core (snd r) = core instr \<and> Checked (snd r) = Checked instr"
  by (induction vs arbitrary: i b vars instr r) (auto simp: Let_def split: bind_splits if_splits)

lemma middleShortIndexed_frame:
  "middleShortIndexed rn vs i b vars instr = Some r \<Longrightarrow>
     core (snd r) = core instr \<and> Checked (snd r) = Checked instr"
  by (induction vs arbitrary: i b vars instr r) (auto simp: Let_def split: bind_splits if_splits)

text \<open>
  The loops that walk the operand bytes from index \<open>b\<close> down return when there are as
  many bytes from \<open>b\<close> down to 0 as names left, and as many type tags from \<open>i\<close> up.
\<close>

lemma c0Direct_ok:
  "0 \<le> i \<Longrightarrow> i + int (length vs) \<le> int (length (VarTypes instr))
    \<Longrightarrow> b < int (length (RawOps instr)) \<Longrightarrow> int (length vs) \<le> b + 1
    \<Longrightarrow> \<exists>r. c0Direct rn vs i b vars instr = Some r"
  by (induction vs arbitrary: i b vars instr) (auto simp: Let_def index_def storeVar_def)

lemma c0Immediate_ok:
  "0 \<le> i \<Longrightarrow> i + int (length vs) \<le> int (length (VarTypes instr))
    \<Longrightarrow> 2 \<le> int (length (RawOps instr))
    \<Longrightarrow> \<exists>r. c0Immediate rn vs i vars instr = Some r"
  by (induction vs arbitrary: i vars instr) (auto simp: Let_def index_def storeVar_def)

lemma c0Indirect_ok:
  "0 \<le> i \<Longrightarrow> i + int (length vs) \<le> int (length (VarTypes instr))
    \<Longrightarrow> b < int (length (RawOps instr)) \<Longrightarrow> int (length vs) \<le> b + 1
    \<Longrightarrow> \<exists>r. c0Indirect rn vs i b vars instr = Some r"
  by (induction vs arbitrary: i b vars instr) (auto simp: Let_def index_def storeVar_def)

lemma lowLoop_ok:
  "0 \<le> i \<Longrightarrow> i + int (length vs) \<le> int (length (VarTypes instr))
    \<Longrightarrow> b < int (length (RawOps instr)) \<Longrightarrow> int (length vs) \<le> b + 1
    \<Longrightarrow> \<exists>r. lowLoop rn vs i b vars instr = Some r"
  by (induction vs arbitrary: i b vars instr) (auto simp: Let_def index_def storeVar_def)

lemma middleDirect_ok:
  "0 \<le> i \<Longrightarrow> i + int (length vs) \<le> int (length (VarTypes instr))
    \<Longrightarrow> b < int (length (RawOps instr)) \<Longrightarrow> int (length vs) \<le> b + 1
    \<Longrightarrow> \<exists>r. middleDirect rn vs i b vars instr = Some r"
  by (induction vs arbitrary: i b vars instr) (auto simp: Let_def index_def storeVar_def)

lemma middleImmByte_ok:
  "0 \<le> i \<Longrightarrow> i + int (length vs) \<le> int (length (VarTypes instr))
    \<Longrightarrow> b < int (length (RawOps instr)) \<Longrightarrow> int (length vs) \<le> b + 1
    \<Longrightarrow> \<exists>r. middleImmByte rn vs i b vars instr = Some r"
  by (induction vs arbitrary: i b vars instr) (auto simp: Let_def index_def storeVar_def)

lemma middleImmWord_ok:
  "0 \<le> i \<Longrightarrow> i + int (length vs) \<le> int (length (VarTypes instr))
    \<Longrightarrow> b < int (length (RawOps instr)) \<Longrightarrow> int (length vs) \<le> b + 1
    \<Longrightarrow> \<exists>r. middleImmWord rn vs i b vars instr = Some r"
  by (induction vs arbitrary: i b vars instr) (auto simp: Let_def index_def storeVar_def)

lemma middleIndirect_ok:
  "0 \<le> i \<Longrightarrow> i + int (length vs) \<le> int (length (VarTypes instr))
    \<Longrightarrow> b < int (length (RawOps instr)) \<Longrightarrow> int (length vs) \<le> b + 1
    \<Longrightarrow> \<exists>r. middleIndirect rn vs i b vars instr = Some r"
  by (induction vs arbitrary: i b vars instr) (auto simp: Let_def index_def storeVar_def)

text \<open>
  The indexed loops also read one or two bytes below \<open>b\<close> in the round of the last
  operand, \<open>i + 1 = VarCount\<close>; \<open>i + b\<close> is the same in every round.
\<close>

lemma c0ShortIndexed_ok:
  "0 \<le> i \<Longrightarrow> i + int (length vs) \<le> int (length (VarTypes instr))
    \<Longrightarrow> b < int (length (RawOps instr)) \<Longrightarrow> int (length vs) \<le> b + 1
    \<Longrightarrow> VarCount instr \<le> i + b
    \<Longrightarrow> \<exists>r. c0ShortIndexed rn vs i b vars instr = Some r"
  by (induction vs arbitrary: i b vars instr) (auto simp: Let_def index_def storeVar_def)

lemma middleShortIndexed_ok:
  "0 \<le> i \<Longrightarrow> i + int (length vs) \<le> int (length (VarTypes instr))
    \<Longrightarrow> b < int (length (RawOps instr)) \<Longrightarrow> int (length vs) \<le> b + 1
    \<Longrightarrow> VarCount instr \<le> i + b
    \<Longrightarrow> \<exists>r. middleShortIndexed rn vs i b vars instr = Some r"
  by (induction vs arbitrary: i b vars instr) (auto simp: Let_def index_def storeVar_def)

lemma longIndexed_ok:
  "0 \<le> i \<Longrightarrow> i + int (length vs) \<le> int (length (VarTypes instr))
    \<Longrightarrow> b < int (length (RawOps instr)) \<Longrightarrow> int (length vs) \<le> b + 1
    \<Longrightarrow> VarCount instr + 1 \<le> i + b
    \<Longrightarrow> \<exists>r. longIndexed rn vs i b vars instr = Some r"
  by (induction vs arbitrary: i b vars instr) (auto simp: Let_def index_def storeVar_def)

subsection \<open>Supporting lemmas: the resolvers\<close>

text \<open>
  A resolver that returns leaves the core of the instruction as it is, except for the
  \<^verbatim>\<open>BR\<close> rewrite; the lemmas also say what \<^verbatim>\<open>Checked\<close> becomes.
\<close>

lemma doSJMP_frame: "doSJMP i = Some i' \<Longrightarrow> core i' = core i \<and> Checked i'"
  by (auto simp: doSJMP_def Let_def split: bind_splits)

lemma doSCALL_frame: "doSCALL i = Some i' \<Longrightarrow> core i' = core i \<and> Checked i'"
  by (auto simp: doSCALL_def Let_def split: bind_splits)

lemma doJBC_frame: "doJBC rn i = Some i' \<Longrightarrow> core i' = core i \<and> Checked i'"
  by (auto simp: doJBC_def Let_def split: bind_splits)

lemma doJBS_frame: "doJBS rn i = Some i' \<Longrightarrow> core i' = core i \<and> Checked i'"
  by (auto simp: doJBS_def Let_def split: bind_splits)

lemma doCONDJMP_frame: "doCONDJMP i = Some i' \<Longrightarrow> core i' = core i \<and> Checked i'"
  by (auto simp: doCONDJMP_def Let_def split: bind_splits)

lemma doF0_frame: "doF0 i = Some i' \<Longrightarrow> core i' = core i \<and> Checked i'"
  by (auto simp: doF0_def Let_def split: bind_splits)

lemma extendedIndexed_frame: "extendedIndexed rn i = Some i' \<Longrightarrow> core i' = core i \<and> Checked i'"
  by (auto simp: extendedIndexed_def Let_def split: bind_splits)

lemma extendedIndirect_frame: "extendedIndirect rn i = Some i' \<Longrightarrow> core i' = core i \<and> Checked i'"
  by (auto simp: extendedIndirect_def Let_def split: bind_splits)

lemma doDJNZ_frame: "doDJNZ rn i = Some i' \<Longrightarrow> core i' = core i \<and> Checked i'"
  by (auto simp: doDJNZ_def Let_def split: bind_splits)

lemma doEJMP_frame: "doEJMP rn i = Some i' \<Longrightarrow> core i' = core i \<and> Checked i'"
  by (auto simp: doEJMP_def Let_def split: bind_splits)

lemma doLJMP_frame: "doLJMP rn i = Some i' \<Longrightarrow> core i' = core i \<and> Checked i'"
  by (auto simp: doLJMP_def Let_def split: bind_splits)

lemma doBR_frame:
  "doBR rn i = Some i' \<Longrightarrow>
     Op i' = Op i \<and> Address i' = Address i \<and> Raw i' = Raw i \<and> RawOps i' = RawOps i
     \<and> ByteLength i' = ByteLength i \<and> VarCount i' = VarCount i \<and> VarTypes i' = VarTypes i
     \<and> Signed i' = Signed i \<and> Checked i'"
  by (auto simp: doBR_def Let_def split: bind_splits if_splits)

lemma doE0_frame:
  "doE0 rn i = Some i' \<Longrightarrow> Op i \<noteq> 0xE3 \<Longrightarrow> core i' = core i"
  by (auto simp: doE0_def split: if_splits
      dest: doDJNZ_frame extendedIndexed_frame extendedIndirect_frame doEJMP_frame doLJMP_frame)

lemma doE0_fields:
  "doE0 rn i = Some i' \<Longrightarrow>
     Op i' = Op i \<and> Address i' = Address i \<and> Raw i' = Raw i \<and> RawOps i' = RawOps i
     \<and> ByteLength i' = ByteLength i \<and> VarCount i' = VarCount i \<and> VarTypes i' = VarTypes i
     \<and> Signed i' = Signed i"
proof (cases "Op i = 0xE3")
  case True
  assume "doE0 rn i = Some i'"
  with True have "doBR rn i = Some i'" by (simp add: doE0_def)
  from doBR_frame [OF this] show ?thesis by simp
next
  case False
  assume "doE0 rn i = Some i'"
  from core_eqD [OF doE0_frame [OF this False]] show ?thesis by simp
qed

lemma doE0_checked:
  assumes a: "doE0 rn i = Some i'" and c: "\<not> Checked i"
  shows "Checked i' = (Op i \<in> set [0xE0, 0xE1, 0xE6, 0xE3, 0xE7, 0xEF]
       \<or> (Op i \<in> set [0xEA, 0xEB, 0xE8, 0xE9] \<and> AddressingMode i \<in> set extendedCases))"
proof -
  consider (djnz) "Op i = 0xE0 \<or> Op i = 0xE1"
    | (eld) "Op i = 0xEA \<or> Op i = 0xEB \<or> Op i = 0xE8 \<or> Op i = 0xE9"
    | (ejmp) "Op i = 0xE6" | (br) "Op i = 0xE3" | (ljmp) "Op i = 0xE7 \<or> Op i = 0xEF"
    | (other) "Op i \<notin> set [0xE0, 0xE1, 0xE6, 0xE3, 0xE7, 0xEF, 0xEA, 0xEB, 0xE8, 0xE9]"
    by auto
  then show ?thesis
  proof cases
    case djnz
    with a have "doDJNZ rn i = Some i'" by (auto simp: doE0_def)
    from doDJNZ_frame [OF this] djnz show ?thesis by auto
  next
    case eld
    show ?thesis
    proof (cases "AddressingMode i = ''extended-indexed''")
      case True
      with a eld have "extendedIndexed rn i = Some i'" by (auto simp: doE0_def)
      from extendedIndexed_frame [OF this] eld True show ?thesis
        by (auto simp: extendedCases_def)
    next
      case False
      note notIndexed = this
      show ?thesis
      proof (cases "AddressingMode i = ''extended-indirect''")
        case True
        with a eld have "extendedIndirect rn i = Some i'" by (auto simp: doE0_def)
        from extendedIndirect_frame [OF this] eld True show ?thesis
          by (auto simp: extendedCases_def)
      next
        case False
        with a eld notIndexed have "i' = i\<lparr>Vars := Map.empty\<rparr>" by (auto simp: doE0_def)
        with c eld notIndexed False show ?thesis by (auto simp: extendedCases_def)
      qed
    qed
  next
    case ejmp
    with a have "doEJMP rn i = Some i'" by (simp add: doE0_def)
    from doEJMP_frame [OF this] ejmp show ?thesis by simp
  next
    case br
    with a have "doBR rn i = Some i'" by (simp add: doE0_def)
    from doBR_frame [OF this] br show ?thesis by simp
  next
    case ljmp
    with a have "doLJMP rn i = Some i'" by (auto simp: doE0_def)
    from doLJMP_frame [OF this] ljmp show ?thesis by auto
  next
    case other
    with a have "i' = i\<lparr>Vars := Map.empty\<rparr>" by (auto simp: doE0_def)
    with c other show ?thesis by auto
  qed
qed

lemma doC0_frame:
  assumes a: "doC0 rn i = Some i'"
  shows "core i' = core i \<and> Checked i'"
proof -
  consider (direct) "Op i = 0xC1 \<or> Op i = 0xC5 \<or> AddressingMode i = ''direct''"
    | (immediate) "\<not> (Op i = 0xC1 \<or> Op i = 0xC5)" "AddressingMode i = ''immediate''"
    | (indirect) "\<not> (Op i = 0xC1 \<or> Op i = 0xC5)" "AddressingMode i = ''indirect''"
    | (indirectp) "\<not> (Op i = 0xC1 \<or> Op i = 0xC5)" "AddressingMode i = ''indirect+''"
    | (indexed) "\<not> (Op i = 0xC1 \<or> Op i = 0xC5)" "AddressingMode i = ''indexed''"
    | (short) "\<not> (Op i = 0xC1 \<or> Op i = 0xC5)" "AddressingMode i = ''short-indexed''"
    | (long) "\<not> (Op i = 0xC1 \<or> Op i = 0xC5)" "AddressingMode i = ''long-indexed''"
    | (other) "\<not> (Op i = 0xC1 \<or> Op i = 0xC5)" "AddressingMode i \<notin> set (''direct'' # modeCases)"
    by (auto simp: modeCases_def)
  then show ?thesis
  proof cases
    case direct
    with a show ?thesis
      by (auto simp: doC0_def setVars_def Let_def split: bind_splits dest!: c0Direct_frame)
  next
    case immediate
    with a show ?thesis
      by (auto simp: doC0_def setVars_def Let_def split: bind_splits dest!: c0Immediate_frame)
  next
    case indirect
    with a show ?thesis
      by (auto simp: doC0_def setVars_def Let_def split: bind_splits dest!: c0Indirect_frame)
  next
    case indirectp
    with a show ?thesis
      by (auto simp: doC0_def setVars_def Let_def split: bind_splits dest!: c0Indirect_frame)
  next
    case indexed
    with a show ?thesis
      by (auto simp: doC0_def setVars_def Let_def split: bind_splits dest!: c0ShortIndexed_frame)
  next
    case short
    with a show ?thesis
      by (auto simp: doC0_def setVars_def Let_def split: bind_splits dest!: c0ShortIndexed_frame)
  next
    case long
    with a show ?thesis
      by (auto simp: doC0_def setVars_def Let_def split: bind_splits dest!: longIndexed_frame)
  next
    case other
    with a show ?thesis
      by (auto simp: doC0_def setVars_def Let_def modeCases_def)
  qed
qed

lemma do00_result:
  assumes a: "do00 rn i = Some i'"
  shows "core i' = core i \<and> (\<not> Checked i \<longrightarrow>
     Checked i' = (if Op i = 0x1F \<or> Op i = 0x1D then AddressingMode i \<in> set extendedCases else True))"
proof (cases "Op i = 0x1F \<or> Op i = 0x1D")
  case False
  with a show ?thesis
    by (auto simp: do00_def setVars_def split: bind_splits dest!: lowLoop_frame)
next
  case True
  note ext = this
  show ?thesis
  proof (cases "AddressingMode i = ''extended-indexed''")
    case True
    with a ext have "extendedIndexed rn i = Some i'" by (auto simp: do00_def)
    from extendedIndexed_frame [OF this] ext True show ?thesis
      by (auto simp: extendedCases_def)
  next
    case False
    note notIndexed = this
    show ?thesis
    proof (cases "AddressingMode i = ''extended-indirect''")
      case True
      with a ext have "extendedIndirect rn i = Some i'" by (auto simp: do00_def)
      from extendedIndirect_frame [OF this] ext True show ?thesis
        by (auto simp: extendedCases_def)
    next
      case False
      with a ext notIndexed have "i' = i" by (auto simp: do00_def)
      with ext notIndexed False show ?thesis by (auto simp: extendedCases_def)
    qed
  qed
qed

lemma doMIDDLE_result:
  assumes a: "doMIDDLE rn i = Some i'"
  shows "core i' = core i \<and> (\<not> Checked i \<longrightarrow> Checked i' = (AddressingMode i \<in> set modeCases))"
proof -
  consider (direct) "AddressingMode i = ''direct''"
    | (immediate) "AddressingMode i = ''immediate''"
    | (indirect) "AddressingMode i = ''indirect''"
    | (indirectp) "AddressingMode i = ''indirect+''"
    | (indexed) "AddressingMode i = ''indexed''"
    | (short) "AddressingMode i = ''short-indexed''"
    | (long) "AddressingMode i = ''long-indexed''"
    | (other) "AddressingMode i \<notin> set modeCases"
    by (auto simp: modeCases_def)
  then show ?thesis
  proof cases
    case direct
    with a show ?thesis
      by (auto simp: doMIDDLE_def setVars_def modeCases_def Let_def split: bind_splits
          dest!: middleDirect_frame)
  next
    case immediate
    with a show ?thesis
      by (auto simp: doMIDDLE_def setVars_def modeCases_def Let_def split: bind_splits if_splits
          dest!: middleImmByte_frame middleImmWord_frame)
  next
    case indirect
    with a show ?thesis
      by (auto simp: doMIDDLE_def setVars_def modeCases_def Let_def split: bind_splits
          dest!: middleIndirect_frame)
  next
    case indirectp
    with a show ?thesis
      by (auto simp: doMIDDLE_def setVars_def modeCases_def Let_def split: bind_splits
          dest!: middleIndirect_frame)
  next
    case indexed
    with a show ?thesis
      by (auto simp: doMIDDLE_def setVars_def modeCases_def Let_def split: bind_splits
          dest!: middleShortIndexed_frame)
  next
    case short
    with a show ?thesis
      by (auto simp: doMIDDLE_def setVars_def modeCases_def Let_def split: bind_splits
          dest!: middleShortIndexed_frame)
  next
    case long
    with a show ?thesis
      by (auto simp: doMIDDLE_def setVars_def modeCases_def Let_def split: bind_splits
          dest!: longIndexed_frame)
  next
    case other
    with a show ?thesis
      by (auto simp: doMIDDLE_def setVars_def modeCases_def Let_def)
  qed
qed

subsection \<open>The offset calculator\<close>

lemma low3_cases: "(b1 :: byte) AND 7 \<in> {0,1,2,3,4,5,6,7}"
proof -
  have "unat (b1 AND 7) \<le> 7"
    using word_and_le1 [of b1 7] by (simp add: word_le_nat_alt)
  then have "unat (b1 AND 7) \<in> {0,1,2,3,4,5,6,7}" by auto
  moreover have "b1 AND 7 = of_nat (unat (b1 AND 7))" by simp
  ultimately show ?thesis
    by (elim insertE emptyE; simp)
qed

lemma uint_cat16: "uint (word_cat (hi::byte) (lo::byte) :: 16 word) = uint hi * 256 + uint lo"
proof -
  have h: "uint hi < 256" "0 \<le> uint hi" using uint_bounded[of hi] by simp_all
  have l: "uint lo < 256" "0 \<le> uint lo" using uint_bounded[of lo] by simp_all
  show ?thesis
    using h l
    by (simp add: word_cat_eq push_bit_eq_mult uint_word_ariths uint_up_ucast is_up)
qed

lemma sint16: "sint (w :: 16 word) = (uint w + 32768) mod 65536 - 32768"
  by (simp add: sint_uint signed_take_bit_eq_take_bit_shift take_bit_eq_mod)

lemma getOffset_cat:
  "getOffset (b1 # b2 # rest) =
     Some (sint (word_cat (if (b1 AND 7) AND 4 = 4 then (b1 AND 7) OR 0xFC else b1 AND 7) b2 :: 16 word))"
  by (simp add: getOffset_def index_def word_cat_eq_push_bit_or Let_def)

lemma wrap16:
  fixes z :: int
  assumes "0 \<le> z" "z < 65536"
  shows "(z + 32768) mod 65536 - 32768 = (if z < 32768 then z else z - 65536)"
proof (cases "z < 32768")
  case True
  with assms have "(z + 32768) mod 65536 = z + 32768"
    by (intro mod_pos_pos_trivial) simp_all
  with True show ?thesis by simp
next
  case False
  have "(z + 32768) mod 65536 = (z + 32768 - 65536) mod 65536"
    by (simp only: minus_mod_self2)
  also from False assms have "\<dots> = z + 32768 - 65536"
    by (intro mod_pos_pos_trivial) simp_all
  finally show ?thesis using False by simp
qed

lemma sint_cat16:
  "sint (word_cat (hi::byte) (lo::byte) :: 16 word) =
     (if uint hi < 128 then uint hi * 256 + uint lo else uint hi * 256 + uint lo - 65536)"
proof -
  have h: "uint hi < 256" "0 \<le> uint hi" using uint_bounded[of hi] by simp_all
  have l: "uint lo < 256" "0 \<le> uint lo" using uint_bounded[of lo] by simp_all
  from h l have "0 \<le> uint hi * 256 + uint lo" "uint hi * 256 + uint lo < 65536" by simp_all
  moreover have "(uint hi * 256 + uint lo < 32768) = (uint hi < 128)"
    using h l by - (rule iffI; linarith)
  ultimately show ?thesis
    by (simp add: sint16 uint_cat16 wrap16)
qed

lemma getOffset_arith:
  "getOffset (b1 # b2 # rest) =
     Some (uint (b1 AND 7) * 256 + uint b2 - (if 4 \<le> uint (b1 AND 7) then 2048 else 0))"
  using low3_cases [of b1] unfolding getOffset_cat
  by (elim insertE emptyE; simp add: sint_cat16 del: word_cat_0_left)

lemma getOffset_bounds:
  "getOffset (b1 # b2 # rest) = Some r \<Longrightarrow> - 1024 \<le> r \<and> r \<le> 1023"
proof -
  have l: "uint b2 < 256" "0 \<le> uint b2" using uint_bounded[of b2] by simp_all
  assume "getOffset (b1 # b2 # rest) = Some r"
  with low3_cases [of b1] l show ?thesis
    unfolding getOffset_arith
    by (elim insertE emptyE; simp; linarith)
qed

text \<open>
  Claim C1. For every pair of input bytes (and whatever follows them in the slice),
  \<^verbatim>\<open>getOffset\<close> masks the first byte to its low 3 bits, ORs it with \<open>0xFC\<close> when bit 2
  of the masked value is set, and reads the concatenation of that byte (high) and the
  second byte (low) as a signed 16-bit value. This is the 11-bit two's complement value
  of the low 3 bits of the first byte followed by the second byte, so the result lies
  between -1024 and 1023; low bits 3 with second byte \<open>0xFF\<close> give 1023, low bits 4 with
  second byte 0 give -1024.
\<close>

theorem C1_getOffset:
  "getOffset (b1 # b2 # rest) =
     Some (sint (word_cat (if (b1 AND 7) AND 4 = 4 then (b1 AND 7) OR 0xFC else b1 AND 7) b2 :: 16 word))
   \<and> getOffset (b1 # b2 # rest) =
     Some (uint (b1 AND 7) * 256 + uint b2 - (if 4 \<le> uint (b1 AND 7) then 2048 else 0))
   \<and> (\<exists>r. getOffset (b1 # b2 # rest) = Some r \<and> - 1024 \<le> r \<and> r \<le> 1023)
   \<and> (b1 AND 7 = 3 \<longrightarrow> getOffset (b1 # 0xFF # rest) = Some 1023)
   \<and> (b1 AND 7 = 4 \<longrightarrow> getOffset (b1 # 0x00 # rest) = Some (- 1024))"
proof (intro conjI impI)
  show "getOffset (b1 # b2 # rest) =
     Some (sint (word_cat (if (b1 AND 7) AND 4 = 4 then (b1 AND 7) OR 0xFC else b1 AND 7) b2 :: 16 word))"
    by (rule getOffset_cat)
  show "getOffset (b1 # b2 # rest) =
     Some (uint (b1 AND 7) * 256 + uint b2 - (if 4 \<le> uint (b1 AND 7) then 2048 else 0))"
    by (rule getOffset_arith)
  obtain r where r: "getOffset (b1 # b2 # rest) = Some r"
    using getOffset_arith by blast
  with getOffset_bounds [OF r]
  show "\<exists>r. getOffset (b1 # b2 # rest) = Some r \<and> - 1024 \<le> r \<and> r \<le> 1023"
    by blast
next
  assume "b1 AND 7 = 3"
  then show "getOffset (b1 # 0xFF # rest) = Some 1023"
    by (simp add: getOffset_arith)
next
  assume "b1 AND 7 = 4"
  then show "getOffset (b1 # 0x00 # rest) = Some (- 1024)"
    by (simp add: getOffset_arith)
qed

theorem C1_getOffset_witness:
  "getOffset [0x23, 0xFF] = Some 1023 \<and> getOffset [0x24, 0x00] = Some (- 1024)
   \<and> (0x23 :: byte) AND 7 = 3 \<and> (0x24 :: byte) AND 7 = 4"
  using C1_getOffset [of "0x23" "0xFF" "[]"] C1_getOffset [of "0x24" "0x00" "[]"]
  by (simp add: sint_cat16)

end
